theory Spec2Isabelle
  imports Complex_Main
begin

section \<open>Values and table rows\<close>

text \<open>
  The server keeps three Azure tables (vehicles, clients, rentals) and answers HTTP
  requests by reading and writing their rows. Its route handlers come three times in
  the sources, with the table clients built per request, on first use, or at start-up;
  the handlers themselves are the same, and are modelled once.

  A row is a JavaScript object: the two system keys and a bag of named properties. A
  property the object does not have reads as \<open>undefined\<close>, which is \<open>None\<close> here;
  the table client leaves an \<open>undefined\<close> property out when it writes a row. A number
  is a double: a real, an infinity or NaN. The handlers only store numbers and copy
  them into answers.
\<close>

datatype number = Fin real | PosInf | NegInf | NaN

datatype jsval = Str string | Bool bool | Num number

record entity =
  partitionKey :: string
  rowKey :: string
  props :: "string \<rightharpoonup> jsval"

text \<open>JavaScript truthiness, as \<open>!x\<close>, \<open>x || d\<close> and \<open>if (x)\<close> read it.\<close>

fun truthy :: "jsval option \<Rightarrow> bool" where
  "truthy None = False"
| "truthy (Some (Str s)) = (s \<noteq> [])"
| "truthy (Some (Bool b)) = b"
| "truthy (Some (Num (Fin r))) = (r \<noteq> 0)"
| "truthy (Some (Num NaN)) = False"
| "truthy (Some (Num _)) = True"

text \<open>A field of a request body or query string: absent, or a string.\<close>

definition js :: "string option \<Rightarrow> jsval option" where
  "js x = map_option Str x"

text \<open>\<open>x || d\<close> for a string default \<open>d\<close>.\<close>

definition ou :: "jsval option \<Rightarrow> string \<Rightarrow> jsval" where
  "ou x d = (if truthy x then the x else Str d)"

section \<open>The table client\<close>

text \<open>
  A table is the list of its rows, in the order a scan yields them. The service keeps
  one row per pair of keys; the operations below keep it so (see \<open>veiculos_ok\<close> and
  \<open>locacoes_ok\<close>). \<open>createEntity\<close> refuses a pair of keys that is taken (409),
  \<open>getEntity\<close>, \<open>updateEntity\<close> and \<open>deleteEntity\<close> refuse one that is not there
  (404). An update in mode \<open>Merge\<close> overwrites the properties the patch has and
  leaves the others; in mode \<open>Replace\<close> the patch becomes the row.

  An error thrown by a call of the table client: \<open>statusCode\<close> is the HTTP status of
  the service's answer, absent when the failure is not an answer of the service.
\<close>

datatype rest_error = RestError (statusCode: "nat option") (message: string)

datatype modo = Merge | Replace

definition tem :: "string \<Rightarrow> string \<Rightarrow> entity \<Rightarrow> bool" where
  "tem pk rk e = (partitionKey e = pk \<and> rowKey e = rk)"

definition getEntity :: "entity list \<Rightarrow> string \<Rightarrow> string \<Rightarrow> rest_error + entity" where
  "getEntity t pk rk =
     (case find (tem pk rk) t of
        None \<Rightarrow> Inl (RestError (Some 404) ''ResourceNotFound'')
      | Some e \<Rightarrow> Inr e)"

definition createEntity :: "entity list \<Rightarrow> entity \<Rightarrow> rest_error + entity list" where
  "createEntity t e =
     (case find (tem (partitionKey e) (rowKey e)) t of
        Some _ \<Rightarrow> Inl (RestError (Some 409) ''EntityAlreadyExists'')
      | None \<Rightarrow> Inr (t @ [e]))"

definition aplica :: "modo \<Rightarrow> entity \<Rightarrow> entity \<Rightarrow> entity" where
  "aplica m e x =
     (if tem (partitionKey e) (rowKey e) x
      then (case m of Merge \<Rightarrow> x\<lparr>props := props x ++ props e\<rparr>
                    | Replace \<Rightarrow> x\<lparr>props := props e\<rparr>)
      else x)"

definition updateEntity :: "entity list \<Rightarrow> entity \<Rightarrow> modo \<Rightarrow> rest_error + entity list" where
  "updateEntity t e m =
     (case find (tem (partitionKey e) (rowKey e)) t of
        None \<Rightarrow> Inl (RestError (Some 404) ''ResourceNotFound'')
      | Some _ \<Rightarrow> Inr (map (aplica m e) t))"

definition deleteEntity :: "entity list \<Rightarrow> string \<Rightarrow> string \<Rightarrow> rest_error + entity list" where
  "deleteEntity t pk rk =
     (case find (tem pk rk) t of
        None \<Rightarrow> Inl (RestError (Some 404) ''ResourceNotFound'')
      | Some _ \<Rightarrow> Inr (filter (\<lambda>x. \<not> tem pk rk x) t))"

text \<open>
  \<open>listEntities\<close> yields the rows in the order of the list; with the OData filter
  \<open>disponivel eq true\<close> it yields the rows whose property is the boolean \<open>true\<close>.
\<close>

definition listEntities :: "entity list \<Rightarrow> rest_error + entity list" where
  "listEntities t = Inr t"

definition listEntities_disponivel :: "entity list \<Rightarrow> rest_error + entity list" where
  "listEntities_disponivel t =
     Inr (filter (\<lambda>v. props v ''disponivel'' = Some (Bool True)) t)"

text \<open>
  Any awaited call can throw instead of answering (the service is down, the table is
  gone). \<open>chamada\<close> is one awaited call: given an error it throws that error and the
  store is untouched, otherwise the call has its effect.
\<close>

fun chamada :: "rest_error option \<Rightarrow> rest_error + 'a \<Rightarrow> rest_error + 'a" where
  "chamada None r = r"
| "chamada (Some err) r = Inl err"

section \<open>The server's state and its surroundings\<close>

record db =
  tabelaVeiculos :: "entity list"
  tabelaClientes :: "entity list"
  tabelaLocacoes :: "entity list"

text \<open>
  What a request handler takes from outside the store: the clock (\<open>Date.now()\<close>, in
  milliseconds), which awaited calls throw (numbered in the order the handler makes
  them, from 0), and the runtime's \<open>parseFloat\<close> and \<open>parseInt\<close>, which the handlers
  apply to request fields and whose results they only store.
\<close>

record ambiente =
  now :: nat
  falha :: "nat \<Rightarrow> rest_error option"
  parseFloat :: "string option \<Rightarrow> jsval"
  parseInt :: "string option \<Rightarrow> jsval"

text \<open>\<open>Date.now().toString()\<close>: the decimal digits of the clock.\<close>

definition digito :: "nat \<Rightarrow> char" where
  "digito d = ''0123456789'' ! d"

fun toString :: "nat \<Rightarrow> string" where
  "toString n = (if n < 10 then [digito n] else toString (n div 10) @ [digito (n mod 10)])"

declare toString.simps [simp del]

text \<open>
  Response bodies: \<open>{sucesso, mensagem}\<close>, \<open>{error}\<close>, or an array of vehicles. The
  server's own messages are written here without their accents.
\<close>

record resumo =
  r_marca :: "jsval option"
  r_modelo :: "jsval option"
  r_ano :: "jsval option"
  r_urlImagem :: "jsval option"
  r_placa :: string
  r_precoDiaria :: "jsval option"
  r_disponivel :: "jsval option"

datatype corpo =
    Sucesso bool "string option"
  | Erro string
  | Veiculos "resumo list"

datatype resposta = Resposta (status: nat) (corpo: corpo)

definition ok :: resposta where
  "ok = Resposta 200 (Sucesso True None)"

section \<open>Rental creation: POST /locacoes\<close>

text \<open>
  The handler of \<^verbatim>\<open>server.js\<close> (lines 567 to 610), the same as in the start-up
  variant. Its awaited calls are, in order: the lookup of the vehicle (0), the write
  of the rental (1), the write of the vehicle's flag (2).
\<close>

record locacao_req =
  placaVeiculo :: "string option"
  clienteId :: "string option"
  dataInicio :: "string option"
  dataFim :: "string option"
  valor :: "string option"

definition entidade :: "ambiente \<Rightarrow> locacao_req \<Rightarrow> entity option \<Rightarrow> entity" where
  "entidade env req veiculo =
     \<lparr>partitionKey = ''Locacao'',
      rowKey = toString (now env),
      props = Map.empty
        (''placaVeiculo'' := js (placaVeiculo req),
         ''marca'' := Some (ou (Option.bind veiculo (\<lambda>v. props v ''marca'')) ''---''),
         ''modelo'' := Some (ou (Option.bind veiculo (\<lambda>v. props v ''modelo'')) ''---''),
         ''clienteId'' := js (clienteId req),
         ''dataInicio'' := js (dataInicio req),
         ''dataFim'' := js (dataFim req),
         ''valor'' := Some (parseFloat env (valor req)),
         ''status'' := Some (Str ''ativa''))\<rparr>"

definition indisponivel :: "entity \<Rightarrow> entity" where
  "indisponivel v =
     \<lparr>partitionKey = partitionKey v, rowKey = rowKey v,
      props = [''disponivel'' \<mapsto> Bool False]\<rparr>"

text \<open>
  The inner \<open>try\<close> around the lookup of the vehicle: whatever the lookup throws is
  logged and \<open>veiculo\<close> stays \<open>null\<close>.
\<close>

definition busca_veiculo :: "ambiente \<Rightarrow> string \<Rightarrow> entity list \<Rightarrow> entity option" where
  "busca_veiculo env placa vs =
     (case chamada (falha env 0) (getEntity vs ''Veiculo'' placa) of
        Inl err \<Rightarrow> None
      | Inr v \<Rightarrow> Some v)"

definition post_locacoes :: "ambiente \<Rightarrow> locacao_req \<Rightarrow> db \<Rightarrow> resposta \<times> db" where
  "post_locacoes env req d =
     (if \<not> truthy (js (placaVeiculo req)) \<or> \<not> truthy (js (clienteId req))
      then (Resposta 400 (Sucesso False (Some ''Campos obrigatorios ausentes.'')), d)
      else
        (let veiculo = busca_veiculo env (the (placaVeiculo req)) (tabelaVeiculos d)
         in (case chamada (falha env 1)
                    (createEntity (tabelaLocacoes d) (entidade env req veiculo)) of
               Inl err \<Rightarrow> (Resposta 500 (Sucesso False (Some (message err))), d)
             | Inr ls \<Rightarrow>
                 (case veiculo of
                    None \<Rightarrow> (ok, d\<lparr>tabelaLocacoes := ls\<rparr>)
                  | Some v \<Rightarrow>
                      (case chamada (falha env 2)
                              (updateEntity (tabelaVeiculos d) (indisponivel v) Merge) of
                         Inl err \<Rightarrow>
                           (Resposta 500 (Sucesso False (Some (message err))),
                            d\<lparr>tabelaLocacoes := ls\<rparr>)
                       | Inr vs \<Rightarrow>
                           (ok, d\<lparr>tabelaLocacoes := ls, tabelaVeiculos := vs\<rparr>))))))"

section \<open>Rental creation, for any JSON body\<close>

text \<open>
  The body of POST /locacoes is what \<open>express.json()\<close> parsed, so each of its fields
  is absent or any JSON value, not only a string. \<open>post_locacoes_json\<close> is the same
  handler over such a body; \<open>post_locacoes\<close> above is its restriction to the bodies
  whose fields are strings (lemma \<open>post_locacoes_json_tipado\<close>). The guard
  \<open>!placaVeiculo || !clienteId\<close> reads the truthiness of the JSON value. For the
  values that are not strings the table client behaves as follows: a key that is not
  a string makes the lookup throw, which the inner \<open>try\<close> drops; strings, numbers and
  booleans are written as they are, \<open>null\<close> and \<open>undefined\<close> are left out, and a row
  holding an array or an object cannot be written, the write throws.
  \<open>parseFloat\<close> of a body value is taken as a parameter, like \<open>parseFloat\<close> of a
  string.
\<close>

datatype json =
    JNull
  | JBool bool
  | JNum number
  | JStr string
  | JArr "json list"
  | JObj "(string \<times> json) list"

fun truthy_json :: "json option \<Rightarrow> bool" where
  "truthy_json None = False"
| "truthy_json (Some JNull) = False"
| "truthy_json (Some (JBool b)) = b"
| "truthy_json (Some (JNum n)) = truthy (Some (Num n))"
| "truthy_json (Some (JStr s)) = (s \<noteq> [])"
| "truthy_json (Some (JArr xs)) = True"
| "truthy_json (Some (JObj fs)) = True"

record locacao_corpo =
  c_placaVeiculo :: "json option"
  c_clienteId :: "json option"
  c_dataInicio :: "json option"
  c_dataFim :: "json option"
  c_valor :: "json option"

fun escalar :: "json option \<Rightarrow> bool" where
  "escalar (Some (JArr xs)) = False"
| "escalar (Some (JObj fs)) = False"
| "escalar x = True"

fun guarda :: "json option \<Rightarrow> jsval option" where
  "guarda (Some (JBool b)) = Some (Bool b)"
| "guarda (Some (JNum n)) = Some (Num n)"
| "guarda (Some (JStr s)) = Some (Str s)"
| "guarda x = None"

definition armazenavel :: "locacao_corpo \<Rightarrow> bool" where
  "armazenavel body =
     (escalar (c_placaVeiculo body) \<and> escalar (c_clienteId body)
      \<and> escalar (c_dataInicio body) \<and> escalar (c_dataFim body))"

definition entidade_json ::
    "ambiente \<Rightarrow> (json option \<Rightarrow> jsval) \<Rightarrow> locacao_corpo \<Rightarrow> entity option \<Rightarrow> entity" where
  "entidade_json env pf body veiculo =
     \<lparr>partitionKey = ''Locacao'',
      rowKey = toString (now env),
      props = Map.empty
        (''placaVeiculo'' := guarda (c_placaVeiculo body),
         ''marca'' := Some (ou (Option.bind veiculo (\<lambda>v. props v ''marca'')) ''---''),
         ''modelo'' := Some (ou (Option.bind veiculo (\<lambda>v. props v ''modelo'')) ''---''),
         ''clienteId'' := guarda (c_clienteId body),
         ''dataInicio'' := guarda (c_dataInicio body),
         ''dataFim'' := guarda (c_dataFim body),
         ''valor'' := Some (pf (c_valor body)),
         ''status'' := Some (Str ''ativa''))\<rparr>"

definition busca_veiculo_json :: "ambiente \<Rightarrow> json option \<Rightarrow> entity list \<Rightarrow> entity option" where
  "busca_veiculo_json env placa vs =
     (case placa of
        Some (JStr p) \<Rightarrow> busca_veiculo env p vs
      | _ \<Rightarrow> None)"

definition createEntity_json ::
    "entity list \<Rightarrow> locacao_corpo \<Rightarrow> entity \<Rightarrow> rest_error + entity list" where
  "createEntity_json t body e =
     (if armazenavel body then createEntity t e
      else Inl (RestError None ''Unknown EDM type object''))"

definition post_locacoes_json ::
    "ambiente \<Rightarrow> (json option \<Rightarrow> jsval) \<Rightarrow> locacao_corpo \<Rightarrow> db \<Rightarrow> resposta \<times> db" where
  "post_locacoes_json env pf body d =
     (if \<not> truthy_json (c_placaVeiculo body) \<or> \<not> truthy_json (c_clienteId body)
      then (Resposta 400 (Sucesso False (Some ''Campos obrigatorios ausentes.'')), d)
      else
        (let veiculo = busca_veiculo_json env (c_placaVeiculo body) (tabelaVeiculos d)
         in (case chamada (falha env 1)
                    (createEntity_json (tabelaLocacoes d) body
                       (entidade_json env pf body veiculo)) of
               Inl err \<Rightarrow> (Resposta 500 (Sucesso False (Some (message err))), d)
             | Inr ls \<Rightarrow>
                 (case veiculo of
                    None \<Rightarrow> (ok, d\<lparr>tabelaLocacoes := ls\<rparr>)
                  | Some v \<Rightarrow>
                      (case chamada (falha env 2)
                              (updateEntity (tabelaVeiculos d) (indisponivel v) Merge) of
                         Inl err \<Rightarrow>
                           (Resposta 500 (Sucesso False (Some (message err))),
                            d\<lparr>tabelaLocacoes := ls\<rparr>)
                       | Inr vs \<Rightarrow>
                           (ok, d\<lparr>tabelaLocacoes := ls, tabelaVeiculos := vs\<rparr>))))))"

text \<open>The body whose fields are the strings of a request.\<close>

definition corpo_de :: "locacao_req \<Rightarrow> locacao_corpo" where
  "corpo_de req =
     \<lparr>c_placaVeiculo = map_option JStr (placaVeiculo req),
      c_clienteId = map_option JStr (clienteId req),
      c_dataInicio = map_option JStr (dataInicio req),
      c_dataFim = map_option JStr (dataFim req),
      c_valor = map_option JStr (valor req)\<rparr>"

section \<open>Rental cancellation: POST /cancelar-locacao\<close>

text \<open>
  The handler of \<^verbatim>\<open>server.js\<close> (lines 612 to 640). Its awaited calls are, in
  order: the read of the rental (0), the write of its status (1), the lookup of the
  vehicle (2), the write of the vehicle's flag (3).
\<close>

definition cancelada :: "entity \<Rightarrow> entity" where
  "cancelada l =
     \<lparr>partitionKey = partitionKey l, rowKey = rowKey l,
      props = [''status'' \<mapsto> Str ''cancelada'']\<rparr>"

definition disponivel :: "entity \<Rightarrow> entity" where
  "disponivel v =
     \<lparr>partitionKey = partitionKey v, rowKey = rowKey v,
      props = [''disponivel'' \<mapsto> Bool True]\<rparr>"

text \<open>
  The inner \<open>try\<close> of the handler, entered when the rental's \<open>placaVeiculo\<close> is
  truthy: look the vehicle up and mark it available; whatever is thrown there is
  logged and dropped. The server only ever stores a string as a plate; a stored plate
  of another type is taken to name no row.
\<close>

definition devolve :: "ambiente \<Rightarrow> entity \<Rightarrow> entity list \<Rightarrow> entity list" where
  "devolve env locacao vs =
     (if truthy (props locacao ''placaVeiculo'')
      then (case props locacao ''placaVeiculo'' of
              Some (Str p) \<Rightarrow>
                (case chamada (falha env 2) (getEntity vs ''Veiculo'' p) of
                   Inl err \<Rightarrow> vs
                 | Inr veiculo \<Rightarrow>
                     (case chamada (falha env 3) (updateEntity vs (disponivel veiculo) Merge) of
                        Inl err \<Rightarrow> vs
                      | Inr vs' \<Rightarrow> vs'))
            | _ \<Rightarrow> vs)
      else vs)"

text \<open>
  The id comes from the request body and may be missing: a key that is \<open>undefined\<close>
  reaches no row, the call throws.
\<close>

definition getEntity_opt :: "entity list \<Rightarrow> string \<Rightarrow> string option \<Rightarrow> rest_error + entity" where
  "getEntity_opt t pk rk =
     (case rk of
        None \<Rightarrow> Inl (RestError None ''rowKey cannot be null or undefined.'')
      | Some k \<Rightarrow> getEntity t pk k)"

definition post_cancelar_locacao :: "ambiente \<Rightarrow> string option \<Rightarrow> db \<Rightarrow> resposta \<times> db" where
  "post_cancelar_locacao env locacaoId d =
     (case chamada (falha env 0) (getEntity_opt (tabelaLocacoes d) ''Locacao'' locacaoId) of
        Inl err \<Rightarrow> (Resposta 500 (Erro (message err)), d)
      | Inr locacao \<Rightarrow>
          (case chamada (falha env 1)
                  (updateEntity (tabelaLocacoes d) (cancelada locacao) Merge) of
             Inl err \<Rightarrow> (Resposta 500 (Erro (message err)), d)
           | Inr ls \<Rightarrow>
               (Resposta 200 (Sucesso True None),
                d\<lparr>tabelaLocacoes := ls,
                  tabelaVeiculos := devolve env locacao (tabelaVeiculos d)\<rparr>)))"

section \<open>Client deletion: DELETE /clientes/:id\<close>

text \<open>
  The handler of \<^verbatim>\<open>server.js\<close> (lines 518 to 562). Its awaited calls are, in
  order: the read of the client (0), the scan of the rentals (1), the deletion (2).
\<close>

text \<open>The scan of the rentals: the loop leaves at the first active rental of the client.\<close>

fun temLocacoesAtivas :: "string \<Rightarrow> entity list \<Rightarrow> bool" where
  "temLocacoesAtivas ident [] = False"
| "temLocacoesAtivas ident (locacao # resto) =
     (if props locacao ''clienteId'' = Some (Str ident)
         \<and> props locacao ''status'' = Some (Str ''ativa'')
      then True
      else temLocacoesAtivas ident resto)"

text \<open>The handler's \<open>catch\<close>: status 404 for an error of status 404, 500 otherwise.\<close>

definition erro_excluir :: "rest_error \<Rightarrow> resposta" where
  "erro_excluir err =
     (if statusCode err = Some 404
      then Resposta 404 (Sucesso False (Some ''Cliente nao encontrado''))
      else Resposta 500 (Sucesso False (Some (message err))))"

definition delete_clientes :: "ambiente \<Rightarrow> string \<Rightarrow> db \<Rightarrow> resposta \<times> db" where
  "delete_clientes env ident d =
     (case chamada (falha env 0) (getEntity (tabelaClientes d) ''Cliente'' ident) of
        Inl err \<Rightarrow> (erro_excluir err, d)
      | Inr cliente \<Rightarrow>
          (case chamada (falha env 1) (listEntities (tabelaLocacoes d)) of
             Inl err \<Rightarrow> (erro_excluir err, d)
           | Inr locacoes \<Rightarrow>
               (if temLocacoesAtivas ident locacoes
                then (Resposta 400 (Sucesso False
                        (Some ''Nao e possivel excluir cliente com locacoes ativas'')), d)
                else
                  (case chamada (falha env 2)
                          (deleteEntity (tabelaClientes d) ''Cliente'' ident) of
                     Inl err \<Rightarrow> (erro_excluir err, d)
                   | Inr cs \<Rightarrow>
                       (Resposta 200 (Sucesso True (Some ''Cliente excluido com sucesso'')),
                        d\<lparr>tabelaClientes := cs\<rparr>)))))"

section \<open>Listing available vehicles: GET /veiculos/disponiveis\<close>

text \<open>
  The handler of \<^verbatim>\<open>server.js\<close> (lines 403 to 429). Its one awaited call is the
  scan of the vehicles with the filter \<open>disponivel eq true\<close> (0).
\<close>

definition resumir :: "entity \<Rightarrow> resumo" where
  "resumir v =
     \<lparr>r_marca = props v ''marca'',
      r_modelo = props v ''modelo'',
      r_ano = props v ''ano'',
      r_urlImagem = props v ''urlImagem'',
      r_placa = rowKey v,
      r_precoDiaria = props v ''precoDiaria'',
      r_disponivel = props v ''disponivel''\<rparr>"

definition passa :: "string option \<Rightarrow> string option \<Rightarrow> entity \<Rightarrow> bool" where
  "passa marca modelo v =
     ((\<not> truthy (js marca) \<or> props v ''marca'' = js marca)
      \<and> (\<not> truthy (js modelo) \<or> props v ''modelo'' = js modelo))"

text \<open>The loop over the rows the store yields, pushing onto \<open>veiculos\<close>.\<close>

fun coleta :: "string option \<Rightarrow> string option \<Rightarrow> entity list \<Rightarrow> resumo list \<Rightarrow> resumo list" where
  "coleta marca modelo [] veiculos = veiculos"
| "coleta marca modelo (v # vs) veiculos =
     coleta marca modelo vs
       (if passa marca modelo v then veiculos @ [resumir v] else veiculos)"

definition get_veiculos_disponiveis ::
    "ambiente \<Rightarrow> string option \<Rightarrow> string option \<Rightarrow> db \<Rightarrow> resposta" where
  "get_veiculos_disponiveis env marca modelo d =
     (case chamada (falha env 0) (listEntities_disponivel (tabelaVeiculos d)) of
        Inl err \<Rightarrow> Resposta 500 (Erro (message err))
      | Inr vs \<Rightarrow> Resposta 200 (Veiculos (coleta marca modelo vs [])))"

section \<open>Registration of vehicles and clients\<close>

text \<open>
  POST /veiculos. The upload of the photograph to the blob store comes first and is
  outside the tables: \<open>imagem\<close> is absent when the request carries no file, and
  otherwise what the upload gave, an error thrown or the URL of the blob. A row
  without a key is refused by the table client. The fields are those of the form,
  strings; \<open>disponivel\<close> counts as true when it is the string \<open>true\<close> (a body that
  carries the boolean \<open>true\<close> instead stores the same row).
\<close>

record veiculo_req =
  v_marca :: "string option"
  v_modelo :: "string option"
  v_ano :: "string option"
  v_placa :: "string option"
  v_precoDiaria :: "string option"
  v_disponivel :: "string option"
  v_imagem :: "(rest_error + string) option"

definition createEntity_opt ::
    "entity list \<Rightarrow> string \<Rightarrow> string option \<Rightarrow> (string \<rightharpoonup> jsval) \<Rightarrow> rest_error + entity list" where
  "createEntity_opt t pk rk ps =
     (case rk of
        None \<Rightarrow> Inl (RestError None ''rowKey cannot be null or undefined.'')
      | Some k \<Rightarrow> createEntity t \<lparr>partitionKey = pk, rowKey = k, props = ps\<rparr>)"

definition post_veiculos :: "ambiente \<Rightarrow> veiculo_req \<Rightarrow> db \<Rightarrow> resposta \<times> db" where
  "post_veiculos env req d =
     (case (case v_imagem req of None \<Rightarrow> Inr [] | Some r \<Rightarrow> r) of
        Inl err \<Rightarrow> (Resposta 500 (Erro (message err)), d)
      | Inr urlImagem \<Rightarrow>
          (case chamada (falha env 0)
                  (createEntity_opt (tabelaVeiculos d) ''Veiculo'' (v_placa req)
                     (Map.empty
                        (''marca'' := js (v_marca req),
                         ''modelo'' := js (v_modelo req),
                         ''ano'' := Some (parseInt env (v_ano req)),
                         ''urlImagem'' := Some (Str urlImagem),
                         ''precoDiaria'' := Some (parseFloat env (v_precoDiaria req)),
                         ''disponivel'' := Some (Bool (v_disponivel req = Some ''true''))))) of
             Inl err \<Rightarrow> (Resposta 500 (Erro (message err)), d)
           | Inr vs \<Rightarrow> (ok, d\<lparr>tabelaVeiculos := vs\<rparr>)))"

record cliente_req =
  nome :: "string option"
  email :: "string option"
  telefone :: "string option"

definition dados_cliente :: "cliente_req \<Rightarrow> (string \<rightharpoonup> jsval)" where
  "dados_cliente req =
     Map.empty
       (''nome'' := js (nome req),
        ''email'' := js (email req),
        ''telefone'' := js (telefone req))"

definition post_clientes :: "ambiente \<Rightarrow> cliente_req \<Rightarrow> db \<Rightarrow> resposta \<times> db" where
  "post_clientes env req d =
     (case chamada (falha env 0)
             (createEntity (tabelaClientes d)
                \<lparr>partitionKey = ''Cliente'', rowKey = toString (now env),
                 props = dados_cliente req\<rparr>) of
        Inl err \<Rightarrow> (Resposta 500 (Erro (message err)), d)
      | Inr cs \<Rightarrow> (ok, d\<lparr>tabelaClientes := cs\<rparr>))"

definition put_clientes :: "ambiente \<Rightarrow> string \<Rightarrow> cliente_req \<Rightarrow> db \<Rightarrow> resposta \<times> db" where
  "put_clientes env ident req d =
     (case chamada (falha env 0) (getEntity (tabelaClientes d) ''Cliente'' ident) of
        Inl err \<Rightarrow> (Resposta 500 (Erro (message err)), d)
      | Inr cliente \<Rightarrow>
          (case chamada (falha env 1)
                  (updateEntity (tabelaClientes d)
                     \<lparr>partitionKey = partitionKey cliente, rowKey = rowKey cliente,
                      props = dados_cliente req\<rparr> Merge) of
             Inl err \<Rightarrow> (Resposta 500 (Erro (message err)), d)
           | Inr cs \<Rightarrow> (ok, d\<lparr>tabelaClientes := cs\<rparr>)))"

section \<open>Sequences of requests\<close>

datatype pedido =
    PostVeiculos veiculo_req
  | PostClientes cliente_req
  | PutClientes string cliente_req
  | DeleteClientes string
  | PostLocacoes locacao_req
  | PostCancelarLocacao "string option"

fun servidor :: "ambiente \<Rightarrow> pedido \<Rightarrow> db \<Rightarrow> resposta \<times> db" where
  "servidor env (PostVeiculos req) d = post_veiculos env req d"
| "servidor env (PostClientes req) d = post_clientes env req d"
| "servidor env (PutClientes ident req) d = put_clientes env ident req d"
| "servidor env (DeleteClientes ident) d = delete_clientes env ident d"
| "servidor env (PostLocacoes req) d = post_locacoes env req d"
| "servidor env (PostCancelarLocacao locacaoId) d = post_cancelar_locacao env locacaoId d"

text \<open>The store after a sequence of requests, each with its own surroundings.\<close>

fun executa :: "(ambiente \<times> pedido) list \<Rightarrow> db \<Rightarrow> db" where
  "executa [] d = d"
| "executa ((env, p) # ps) d = executa ps (snd (servidor env p d))"

definition vazio :: db where
  "vazio = \<lparr>tabelaVeiculos = [], tabelaClientes = [], tabelaLocacoes = []\<rparr>"

section \<open>Notions the properties are stated with\<close>

text \<open>A table has a row with these keys.\<close>

definition existe :: "entity list \<Rightarrow> string \<Rightarrow> string \<Rightarrow> bool" where
  "existe t pk rk = (\<exists>e\<in>set t. tem pk rk e)"

text \<open>A rental of this client that is active, as the deletion guard reads it.\<close>

definition ativa_do_cliente :: "string \<Rightarrow> entity \<Rightarrow> bool" where
  "ativa_do_cliente ident l =
     (props l ''clienteId'' = Some (Str ident) \<and> props l ''status'' = Some (Str ''ativa''))"

text \<open>
  A brand or model filter of the listing against a stored value: a filter that is
  absent or empty lets every value through, any other filter only the equal string.
\<close>

definition filtro :: "string option \<Rightarrow> jsval option \<Rightarrow> bool" where
  "filtro f x = (case f of None \<Rightarrow> True | Some s \<Rightarrow> s = [] \<or> x = Some (Str s))"

text \<open>
  The listing read to the letter of its description, where every filter that is
  supplied must be equalled: the rows a supplied filter lets through, and the listing
  built from them.
\<close>

definition filtro_literal :: "string option \<Rightarrow> jsval option \<Rightarrow> bool" where
  "filtro_literal f x = (case f of None \<Rightarrow> True | Some s \<Rightarrow> x = Some (Str s))"

definition disponiveis_literal :: "string option \<Rightarrow> string option \<Rightarrow> db \<Rightarrow> resumo list" where
  "disponiveis_literal marca modelo d =
     map resumir
       (filter (\<lambda>v. props v ''disponivel'' = Some (Bool True)
                   \<and> filtro_literal marca (props v ''marca'')
                   \<and> filtro_literal modelo (props v ''modelo''))
          (tabelaVeiculos d))"

text \<open>One column of a table, row by row.\<close>

definition coluna :: "string \<Rightarrow> entity list \<Rightarrow> jsval option list" where
  "coluna k t = map (\<lambda>e. props e k) t"

text \<open>An active rental of this plate.\<close>

definition ativa_da_placa :: "string \<Rightarrow> entity \<Rightarrow> bool" where
  "ativa_da_placa p l =
     (props l ''placaVeiculo'' = Some (Str p) \<and> props l ''status'' = Some (Str ''ativa''))"

text \<open>A row with its \<open>disponivel\<close> property set to a value chosen for the row.\<close>

definition com_disponivel :: "(entity \<Rightarrow> jsval option) \<Rightarrow> entity \<Rightarrow> entity" where
  "com_disponivel b v = v\<lparr>props := (props v)(''disponivel'' := b v)\<rparr>"

text \<open>
  What every state reached from the empty store satisfies: vehicle rows sit in the
  partition \<open>Veiculo\<close> under distinct keys; rental rows sit in the partition
  \<open>Locacao\<close> under distinct keys, carry a non-empty plate and have status \<open>ativa\<close> or
  \<open>cancelada\<close>.
\<close>

definition veiculos_ok :: "entity list \<Rightarrow> bool" where
  "veiculos_ok vs =
     ((\<forall>v\<in>set vs. partitionKey v = ''Veiculo'') \<and> distinct (map rowKey vs))"

definition locacao_ok :: "entity \<Rightarrow> bool" where
  "locacao_ok l =
     (partitionKey l = ''Locacao''
      \<and> (\<exists>p. props l ''placaVeiculo'' = Some (Str p) \<and> p \<noteq> [])
      \<and> (props l ''status'' = Some (Str ''ativa'')
           \<or> props l ''status'' = Some (Str ''cancelada'')))"

definition locacoes_ok :: "entity list \<Rightarrow> bool" where
  "locacoes_ok ls = ((\<forall>l\<in>set ls. locacao_ok l) \<and> distinct (map rowKey ls))"

definition integro :: "db \<Rightarrow> bool" where
  "integro d = (veiculos_ok (tabelaVeiculos d) \<and> locacoes_ok (tabelaLocacoes d))"

text \<open>
  Two vehicle tables with the same rows under the same keys that read the same in
  every column except \<open>disponivel\<close>; the five columns of a registration are named.
\<close>

definition mesmo_cadastro :: "entity list \<Rightarrow> entity list \<Rightarrow> bool" where
  "mesmo_cadastro vs vs' =
     (map partitionKey vs' = map partitionKey vs
      \<and> map rowKey vs' = map rowKey vs
      \<and> coluna ''marca'' vs' = coluna ''marca'' vs
      \<and> coluna ''modelo'' vs' = coluna ''modelo'' vs
      \<and> coluna ''ano'' vs' = coluna ''ano'' vs
      \<and> coluna ''precoDiaria'' vs' = coluna ''precoDiaria'' vs
      \<and> coluna ''urlImagem'' vs' = coluna ''urlImagem'' vs
      \<and> (\<forall>c. c \<noteq> ''disponivel'' \<longrightarrow> coluna c vs' = coluna c vs))"

text \<open>A vehicle row after the vehicle of plate \<open>p\<close> is marked available.\<close>

definition marcado_disponivel :: "string \<Rightarrow> entity \<Rightarrow> entity" where
  "marcado_disponivel p v =
     (if tem ''Veiculo'' p v then v\<lparr>props := (props v)(''disponivel'' \<mapsto> Bool True)\<rparr> else v)"

text \<open>
  The availability invariant of a vehicle: its \<open>disponivel\<close> is false while some
  rental of its plate is active, and true otherwise.
\<close>

definition ocupada :: "entity list \<Rightarrow> string \<Rightarrow> bool" where
  "ocupada ls p = (\<exists>l\<in>set ls. ativa_da_placa p l)"

definition invariante :: "db \<Rightarrow> bool" where
  "invariante d =
     (\<forall>v\<in>set (tabelaVeiculos d).
        props v ''disponivel'' = Some (Bool (\<not> ocupada (tabelaLocacoes d) (rowKey v))))"

text \<open>
  A request that keeps to the rules the server does not enforce: a vehicle is
  registered as available; a rental is asked only for a registered vehicle that is
  available; a cancellation is asked only for a rental that is active (or for none).
  Requests about clients are free.
\<close>

fun permitido :: "db \<Rightarrow> pedido \<Rightarrow> bool" where
  "permitido d (PostVeiculos req) = (v_disponivel req = Some ''true'')"
| "permitido d (PostLocacoes req) =
     (case placaVeiculo req of
        None \<Rightarrow> True
      | Some p \<Rightarrow>
          (case getEntity (tabelaVeiculos d) ''Veiculo'' p of
             Inl err \<Rightarrow> False
           | Inr v \<Rightarrow> props v ''disponivel'' = Some (Bool True)))"
| "permitido d (PostCancelarLocacao locacaoId) =
     (case locacaoId of
        None \<Rightarrow> True
      | Some k \<Rightarrow>
          (case getEntity (tabelaLocacoes d) ''Locacao'' k of
             Inl err \<Rightarrow> True
           | Inr l \<Rightarrow> props l ''status'' = Some (Str ''ativa'')))"
| "permitido d p = True"

text \<open>
  A sequence of requests from a state, each answered in all its calls and each
  keeping to the rules in the state it arrives in.
\<close>

fun regrada :: "(ambiente \<times> pedido) list \<Rightarrow> db \<Rightarrow> bool" where
  "regrada [] d = True"
| "regrada ((env, p) # ps) d =
     (falha env = (\<lambda>i. None) \<and> permitido d p \<and> regrada ps (snd (servidor env p d)))"

text \<open>
  What the rule-keeping sequences maintain besides the invariant: the tables are
  well formed, every rental names a registered vehicle, and no plate has two active
  rentals.
\<close>

definition coerente :: "entity list \<Rightarrow> entity list \<Rightarrow> bool" where
  "coerente vs ls =
     (veiculos_ok vs \<and> locacoes_ok ls
      \<and> (\<forall>l\<in>set ls. \<exists>p. props l ''placaVeiculo'' = Some (Str p) \<and> existe vs ''Veiculo'' p)
      \<and> (\<forall>l1\<in>set ls. \<forall>l2\<in>set ls. \<forall>p.
            ativa_da_placa p l1 \<and> ativa_da_placa p l2 \<longrightarrow> l1 = l2)
      \<and> (\<forall>v\<in>set vs. props v ''disponivel'' = Some (Bool (\<not> ocupada ls (rowKey v)))))"

section \<open>A small shop, for concrete runs\<close>

text \<open>Number parsing, as far as the requests below need it.\<close>

definition numero :: "string option \<Rightarrow> jsval" where
  "numero x =
     (if x = Some ''2020'' then Num (Fin 2020)
      else if x = Some ''150.0'' then Num (Fin 150)
      else if x = Some ''600'' then Num (Fin 600)
      else Num NaN)"

definition amb :: "nat \<Rightarrow> ambiente" where
  "amb t = \<lparr>now = t, falha = (\<lambda>i. None), parseFloat = numero, parseInt = numero\<rparr>"

definition fora_do_ar :: rest_error where
  "fora_do_ar = RestError None ''ECONNRESET''"

text \<open>The same surroundings, but the \<open>i\<close>-th awaited call throws.\<close>

definition amb_falha :: "nat \<Rightarrow> nat \<Rightarrow> ambiente" where
  "amb_falha t i =
     \<lparr>now = t, falha = (\<lambda>j. if j = i then Some fora_do_ar else None),
      parseFloat = numero, parseInt = numero\<rparr>"

definition veiculo_novo :: "string \<Rightarrow> string \<Rightarrow> string \<Rightarrow> string \<Rightarrow> veiculo_req" where
  "veiculo_novo placa marca modelo disp =
     \<lparr>v_marca = Some marca, v_modelo = Some modelo, v_ano = Some ''2020'',
      v_placa = Some placa, v_precoDiaria = Some ''150.0'', v_disponivel = Some disp,
      v_imagem = None\<rparr>"

definition cliente_novo :: "string \<Rightarrow> cliente_req" where
  "cliente_novo n = \<lparr>nome = Some n, email = None, telefone = None\<rparr>"

definition aluga :: "string \<Rightarrow> string \<Rightarrow> locacao_req" where
  "aluga placa cliente =
     \<lparr>placaVeiculo = Some placa, clienteId = Some cliente,
      dataInicio = Some ''2024-01-01'', dataFim = Some ''2024-01-05'',
      valor = Some ''600''\<rparr>"

text \<open>
  Three vehicles and two clients (keys 4 and 5) are registered, then client 4 rents
  the Civic: rental 6.
\<close>

definition historia :: "(ambiente \<times> pedido) list" where
  "historia =
     [(amb 1, PostVeiculos (veiculo_novo ''ABC123'' ''Toyota'' ''Corolla'' ''true'')),
      (amb 2, PostVeiculos (veiculo_novo ''DEF456'' ''Toyota'' ''Yaris'' ''true'')),
      (amb 3, PostVeiculos (veiculo_novo ''GHI789'' ''Honda'' ''Civic'' ''true'')),
      (amb 4, PostClientes (cliente_novo ''Ana'')),
      (amb 5, PostClientes (cliente_novo ''Rui'')),
      (amb 6, PostLocacoes (aluga ''GHI789'' ''4''))]"

definition loja :: db where
  "loja = executa historia vazio"

text \<open>A shop whose only vehicle was registered with an empty brand.\<close>

definition loja_sem_marca :: db where
  "loja_sem_marca =
     executa [(amb 1, PostVeiculos (veiculo_novo ''ABC123'' [] ''Corolla'' ''true''))] vazio"

text \<open>
  What follows the history of the shop in some runs: rental 6 is cancelled, a rental
  request arrives with the clock reading 6 again, and client 4 is deleted.
\<close>

definition depois :: "(ambiente \<times> pedido) list" where
  "depois =
     [(amb 7, PostCancelarLocacao (Some ''6'')),
      (amb 6, PostLocacoes (aluga ''GHI789'' ''5'')),
      (amb 8, DeleteClientes ''4'')]"

text \<open>The shop after rental 6 is cancelled.\<close>

definition devolvida :: db where
  "devolvida = executa (historia @ [(amb 7, PostCancelarLocacao (Some ''6''))]) vazio"

text \<open>
  Runs of the shop for the availability invariant. One keeps to the rules: the
  Corolla is rented and rental 6 is cancelled. The others each break one rule: the
  Civic, already out, is rented again and rental 6 is then cancelled; a vehicle is
  registered as unavailable; rental 6 is cancelled, the Civic is rented anew and
  rental 6 is cancelled again; a rental is asked for a plate that is registered only
  afterwards; the write of the flag fails.
\<close>

definition em_regra :: "(ambiente \<times> pedido) list" where
  "em_regra =
     historia @
     [(amb 7, PostLocacoes (aluga ''ABC123'' ''5'')),
      (amb 8, PostCancelarLocacao (Some ''6''))]"

definition reserva_dupla :: "(ambiente \<times> pedido) list" where
  "reserva_dupla =
     historia @
     [(amb 7, PostLocacoes (aluga ''GHI789'' ''5'')),
      (amb 8, PostCancelarLocacao (Some ''6''))]"

definition registro_indisponivel :: "(ambiente \<times> pedido) list" where
  "registro_indisponivel =
     [(amb 1, PostVeiculos (veiculo_novo ''ABC123'' ''Toyota'' ''Corolla'' ''false''))]"

definition cancela_de_novo :: "(ambiente \<times> pedido) list" where
  "cancela_de_novo =
     historia @
     [(amb 7, PostCancelarLocacao (Some ''6'')),
      (amb 8, PostLocacoes (aluga ''GHI789'' ''5'')),
      (amb 9, PostCancelarLocacao (Some ''6''))]"

definition registro_tardio :: "(ambiente \<times> pedido) list" where
  "registro_tardio =
     [(amb 1, PostLocacoes (aluga ''ABC123'' ''5'')),
      (amb 2, PostVeiculos (veiculo_novo ''ABC123'' ''Toyota'' ''Corolla'' ''true''))]"

definition marca_falha :: "(ambiente \<times> pedido) list" where
  "marca_falha =
     [(amb 1, PostVeiculos (veiculo_novo ''ABC123'' ''Toyota'' ''Corolla'' ''true'')),
      (amb_falha 2 2, PostLocacoes (aluga ''ABC123'' ''5''))]"

text \<open>
  \<open>parseFloat\<close> of a body value, as far as the bodies below need it, and three
  bodies: one for a plate no vehicle has, with the value as a number, one with the
  plate 0 and one with the plate empty.
\<close>

definition numero_json :: "json option \<Rightarrow> jsval" where
  "numero_json x =
     (case x of
        Some (JNum n) \<Rightarrow> Num n
      | Some (JStr s) \<Rightarrow> numero (Some s)
      | _ \<Rightarrow> Num NaN)"

definition corpo_novo :: "json \<Rightarrow> json \<Rightarrow> locacao_corpo" where
  "corpo_novo placa cliente =
     \<lparr>c_placaVeiculo = Some placa, c_clienteId = Some cliente,
      c_dataInicio = Some (JStr ''2024-01-01''), c_dataFim = Some (JStr ''2024-01-05''),
      c_valor = Some (JNum (Fin 600))\<rparr>"

section \<open>Facts about the table client\<close>

lemmas calcula =
  getEntity_def createEntity_def updateEntity_def deleteEntity_def listEntities_def
  listEntities_disponivel_def aplica_def tem_def js_def ou_def
  entidade_def indisponivel_def disponivel_def cancelada_def devolve_def getEntity_opt_def
  createEntity_opt_def busca_veiculo_def post_locacoes_def post_cancelar_locacao_def
  delete_clientes_def erro_excluir_def get_veiculos_disponiveis_def resumir_def passa_def
  post_veiculos_def post_clientes_def put_clientes_def dados_cliente_def ok_def vazio_def
  toString.simps digito_def

lemmas exemplos =
  numero_def amb_def amb_falha_def fora_do_ar_def veiculo_novo_def cliente_novo_def aluga_def
  historia_def loja_def loja_sem_marca_def coluna_def depois_def devolvida_def

lemma find_tem_None: "find (tem pk rk) t = None \<longleftrightarrow> \<not> existe t pk rk"
  by (auto simp: find_None_iff existe_def)

lemma getEntity_existe:
  "existe t pk rk \<Longrightarrow> \<exists>e. getEntity t pk rk = Inr e \<and> e \<in> set t \<and> tem pk rk e"
  unfolding getEntity_def existe_def
  by (auto split: option.splits simp: find_None_iff find_Some_iff)

lemma getEntity_nao_existe:
  "\<not> existe t pk rk \<Longrightarrow> getEntity t pk rk = Inl (RestError (Some 404) ''ResourceNotFound'')"
  using find_tem_None[of pk rk t] unfolding getEntity_def by simp

lemma tem_aplica [simp]: "tem pk rk (aplica m e x) = tem pk rk x"
  by (cases m) (simp_all add: aplica_def tem_def)

lemma find_map_aplica:
  "find (tem pk rk) (map (aplica m e) t) = map_option (aplica m e) (find (tem pk rk) t)"
  by (induction t) simp_all

lemma existe_map_aplica [simp]: "existe (map (aplica m e) t) pk rk = existe t pk rk"
  by (simp add: existe_def)

lemma getEntity_Inr_iff:
  "getEntity t pk rk = Inr e \<longleftrightarrow> find (tem pk rk) t = Some e"
  by (simp add: getEntity_def split: option.splits)

lemma getEntity_Inr_D:
  "getEntity t pk rk = Inr e \<Longrightarrow>
     e \<in> set t \<and> partitionKey e = pk \<and> rowKey e = rk \<and> existe t pk rk"
  by (auto simp: getEntity_Inr_iff find_Some_iff existe_def tem_def)

lemma createEntity_novo:
  "\<not> existe t (partitionKey e) (rowKey e) \<Longrightarrow> createEntity t e = Inr (t @ [e])"
  using find_tem_None[of "partitionKey e" "rowKey e" t] by (simp add: createEntity_def)

lemma createEntity_repetido:
  "existe t (partitionKey e) (rowKey e) \<Longrightarrow>
     createEntity t e = Inl (RestError (Some 409) ''EntityAlreadyExists'')"
  using find_tem_None[of "partitionKey e" "rowKey e" t]
  by (auto simp: createEntity_def split: option.splits)

lemma createEntity_Inr_D:
  "createEntity t e = Inr t' \<Longrightarrow> t' = t @ [e] \<and> \<not> existe t (partitionKey e) (rowKey e)"
  using find_tem_None[of "partitionKey e" "rowKey e" t]
  by (auto simp: createEntity_def split: option.splits)

lemma updateEntity_existe:
  "existe t (partitionKey e) (rowKey e) \<Longrightarrow> updateEntity t e m = Inr (map (aplica m e) t)"
  using find_tem_None[of "partitionKey e" "rowKey e" t]
  by (auto simp: updateEntity_def split: option.splits)

lemma updateEntity_Inr_D:
  "updateEntity t e m = Inr t' \<Longrightarrow> t' = map (aplica m e) t"
  by (auto simp: updateEntity_def split: option.splits)

lemma getEntity_map_aplica:
  "getEntity t pk rk = Inr x \<Longrightarrow> getEntity (map (aplica m e) t) pk rk = Inr (aplica m e x)"
  by (simp add: getEntity_Inr_iff find_map_aplica)

lemma existe_filter: "\<not> existe (filter (\<lambda>x. \<not> tem pk rk x) t) pk rk"
  by (simp add: existe_def)

lemma entidade_chaves [simp]:
  "partitionKey (entidade env req w) = ''Locacao''"
  "rowKey (entidade env req w) = toString (now env)"
  by (simp_all add: entidade_def)

lemma entidade_props:
  "props (entidade env req w) ''status'' = Some (Str ''ativa'')"
  "props (entidade env req w) ''placaVeiculo'' = js (placaVeiculo req)"
  "props (entidade env req w) ''clienteId'' = js (clienteId req)"
  "props (entidade env req w) ''marca''
     = Some (ou (Option.bind w (\<lambda>v. props v ''marca'')) ''---'')"
  "props (entidade env req w) ''modelo''
     = Some (ou (Option.bind w (\<lambda>v. props v ''modelo'')) ''---'')"
  by (simp_all add: entidade_def)

lemma indisponivel_chaves [simp]:
  "partitionKey (indisponivel v) = partitionKey v" "rowKey (indisponivel v) = rowKey v"
  by (simp_all add: indisponivel_def)

lemma busca_veiculo_achou:
  "falha env 0 = None \<Longrightarrow> getEntity vs ''Veiculo'' p = Inr v \<Longrightarrow>
     busca_veiculo env p vs = Some v"
  by (simp add: busca_veiculo_def)

lemma busca_veiculo_nao_existe:
  "\<not> existe vs ''Veiculo'' p \<Longrightarrow> busca_veiculo env p vs = None"
  by (cases "falha env 0") (simp_all add: busca_veiculo_def getEntity_nao_existe)

lemma ou_casos:
  "truthy x \<Longrightarrow> Some (ou x d) = x" "\<not> truthy x \<Longrightarrow> ou x d = Str d"
  by (cases x; simp add: ou_def)+

lemma temLocacoesAtivas_iff:
  "temLocacoesAtivas ident ls \<longleftrightarrow> (\<exists>l\<in>set ls. ativa_do_cliente ident l)"
  by (induction ls) (auto simp: ativa_do_cliente_def)

lemma temLocacoesAtivas_corta:
  "ativa_do_cliente ident l \<Longrightarrow>
     temLocacoesAtivas ident (xs @ l # ys) = temLocacoesAtivas ident (xs @ [l])"
  by (induction xs) (auto simp: ativa_do_cliente_def)

lemma coleta_filter:
  "coleta marca modelo vs acc = acc @ map resumir (filter (passa marca modelo) vs)"
  by (induction vs arbitrary: acc) auto

lemma passa_filtro:
  "passa marca modelo v \<longleftrightarrow>
     filtro marca (props v ''marca'') \<and> filtro modelo (props v ''modelo'')"
  by (auto simp: passa_def filtro_def js_def split: option.splits)

section \<open>The shop of the concrete runs\<close>

lemma loja_eq:
  "loja =
     \<lparr>tabelaVeiculos =
        [\<lparr>partitionKey = ''Veiculo'', rowKey = ''ABC123'',
          props = [''marca'' \<mapsto> Str ''Toyota'', ''modelo'' \<mapsto> Str ''Corolla'',
                   ''ano'' \<mapsto> Num (Fin 2020), ''urlImagem'' \<mapsto> Str [],
                   ''precoDiaria'' \<mapsto> Num (Fin 150), ''disponivel'' \<mapsto> Bool True]\<rparr>,
         \<lparr>partitionKey = ''Veiculo'', rowKey = ''DEF456'',
          props = [''marca'' \<mapsto> Str ''Toyota'', ''modelo'' \<mapsto> Str ''Yaris'',
                   ''ano'' \<mapsto> Num (Fin 2020), ''urlImagem'' \<mapsto> Str [],
                   ''precoDiaria'' \<mapsto> Num (Fin 150), ''disponivel'' \<mapsto> Bool True]\<rparr>,
         \<lparr>partitionKey = ''Veiculo'', rowKey = ''GHI789'',
          props = [''marca'' \<mapsto> Str ''Honda'', ''modelo'' \<mapsto> Str ''Civic'',
                   ''ano'' \<mapsto> Num (Fin 2020), ''urlImagem'' \<mapsto> Str [],
                   ''precoDiaria'' \<mapsto> Num (Fin 150), ''disponivel'' \<mapsto> Bool False]\<rparr>],
      tabelaClientes =
        [\<lparr>partitionKey = ''Cliente'', rowKey = ''4'', props = [''nome'' \<mapsto> Str ''Ana'']\<rparr>,
         \<lparr>partitionKey = ''Cliente'', rowKey = ''5'', props = [''nome'' \<mapsto> Str ''Rui'']\<rparr>],
      tabelaLocacoes =
        [\<lparr>partitionKey = ''Locacao'', rowKey = ''6'',
          props = [''placaVeiculo'' \<mapsto> Str ''GHI789'', ''marca'' \<mapsto> Str ''Honda'',
                   ''modelo'' \<mapsto> Str ''Civic'', ''clienteId'' \<mapsto> Str ''4'',
                   ''dataInicio'' \<mapsto> Str ''2024-01-01'', ''dataFim'' \<mapsto> Str ''2024-01-05'',
                   ''valor'' \<mapsto> Num (Fin 600), ''status'' \<mapsto> Str ''ativa'']\<rparr>]\<rparr>"
  by (simp add: exemplos calcula)

lemma loja_existe:
  "existe (tabelaClientes loja) ''Cliente'' ''4''"
  "existe (tabelaClientes loja) ''Cliente'' ''5''"
  "\<not> existe (tabelaClientes loja) ''Cliente'' ''9''"
  "\<exists>l\<in>set (tabelaLocacoes loja). ativa_do_cliente ''4'' l"
  "\<not> (\<exists>l\<in>set (tabelaLocacoes loja). ativa_do_cliente ''5'' l)"
  by (simp_all add: existe_def ativa_do_cliente_def loja_eq tem_def)

section \<open>Client deletion\<close>

text \<open>
  C3. Deleting a client, when the three calls of the handler are answered. A client
  that does not exist gives 404 and the store is as before. A client that exists and
  has a rental with its \<open>clienteId\<close> and status \<open>ativa\<close> gives the 400 refusal, a
  different answer from the 404, and the store is as before. A client that exists and
  has no such rental is deleted: the answer is the 200, the client table loses exactly
  the rows with that key, and reading the client again gives the 404 error of the
  store. The scan stops at the first active rental: what follows it does not change
  the outcome.
\<close>

theorem delete_clientes_guarda:
  assumes f: "falha env 0 = None" "falha env 1 = None" "falha env 2 = None"
  shows
    "(\<not> existe (tabelaClientes d) ''Cliente'' ident \<longrightarrow>
        delete_clientes env ident d =
          (Resposta 404 (Sucesso False (Some ''Cliente nao encontrado'')), d))
     \<and> (existe (tabelaClientes d) ''Cliente'' ident
          \<and> (\<exists>l\<in>set (tabelaLocacoes d). ativa_do_cliente ident l) \<longrightarrow>
        delete_clientes env ident d =
          (Resposta 400 (Sucesso False
             (Some ''Nao e possivel excluir cliente com locacoes ativas'')), d))
     \<and> (existe (tabelaClientes d) ''Cliente'' ident
          \<and> \<not> (\<exists>l\<in>set (tabelaLocacoes d). ativa_do_cliente ident l) \<longrightarrow>
        fst (delete_clientes env ident d) =
          Resposta 200 (Sucesso True (Some ''Cliente excluido com sucesso''))
        \<and> snd (delete_clientes env ident d) =
            d\<lparr>tabelaClientes := filter (\<lambda>c. \<not> tem ''Cliente'' ident c) (tabelaClientes d)\<rparr>
        \<and> getEntity (tabelaClientes (snd (delete_clientes env ident d))) ''Cliente'' ident =
            Inl (RestError (Some 404) ''ResourceNotFound''))
     \<and> (\<forall>xs l ys. ativa_do_cliente ident l \<longrightarrow>
          temLocacoesAtivas ident (xs @ l # ys) = temLocacoesAtivas ident (xs @ [l]))"
proof (intro conjI impI allI)
  assume "\<not> existe (tabelaClientes d) ''Cliente'' ident"
  then show "delete_clientes env ident d =
          (Resposta 404 (Sucesso False (Some ''Cliente nao encontrado'')), d)"
    by (simp add: delete_clientes_def f getEntity_nao_existe erro_excluir_def)
next
  assume a: "existe (tabelaClientes d) ''Cliente'' ident
          \<and> (\<exists>l\<in>set (tabelaLocacoes d). ativa_do_cliente ident l)"
  then obtain c where "getEntity (tabelaClientes d) ''Cliente'' ident = Inr c"
    using getEntity_existe by blast
  with a f show "delete_clientes env ident d =
          (Resposta 400 (Sucesso False
             (Some ''Nao e possivel excluir cliente com locacoes ativas'')), d)"
    by (simp add: delete_clientes_def listEntities_def temLocacoesAtivas_iff)
next
  assume a: "existe (tabelaClientes d) ''Cliente'' ident
          \<and> \<not> (\<exists>l\<in>set (tabelaLocacoes d). ativa_do_cliente ident l)"
  then obtain c where c: "getEntity (tabelaClientes d) ''Cliente'' ident = Inr c"
    using getEntity_existe by blast
  from a have ex: "find (tem ''Cliente'' ident) (tabelaClientes d) \<noteq> None"
    by (simp add: find_tem_None)
  have r: "delete_clientes env ident d =
     (Resposta 200 (Sucesso True (Some ''Cliente excluido com sucesso'')),
      d\<lparr>tabelaClientes := filter (\<lambda>c. \<not> tem ''Cliente'' ident c) (tabelaClientes d)\<rparr>)"
    using a c ex f
    by (auto simp add: delete_clientes_def listEntities_def temLocacoesAtivas_iff
        deleteEntity_def split: option.splits)
  show "fst (delete_clientes env ident d) =
          Resposta 200 (Sucesso True (Some ''Cliente excluido com sucesso''))"
    by (simp add: r)
  show "snd (delete_clientes env ident d) =
            d\<lparr>tabelaClientes := filter (\<lambda>c. \<not> tem ''Cliente'' ident c) (tabelaClientes d)\<rparr>"
    by (simp add: r)
  show "getEntity (tabelaClientes (snd (delete_clientes env ident d))) ''Cliente'' ident =
            Inl (RestError (Some 404) ''ResourceNotFound'')"
    by (simp add: r getEntity_nao_existe existe_filter)
next
  fix xs l ys assume "ativa_do_cliente ident l"
  then show "temLocacoesAtivas ident (xs @ l # ys) = temLocacoesAtivas ident (xs @ [l])"
    by (rule temLocacoesAtivas_corta)
qed

text \<open>
  In the shop: client 9 does not exist, client 4 has the active rental 6, client 5 has
  no rental.
\<close>

theorem delete_clientes_guarda_witness:
  "delete_clientes (amb 7) ''9'' loja =
     (Resposta 404 (Sucesso False (Some ''Cliente nao encontrado'')), loja)
   \<and> delete_clientes (amb 7) ''4'' loja =
       (Resposta 400 (Sucesso False
          (Some ''Nao e possivel excluir cliente com locacoes ativas'')), loja)
   \<and> fst (delete_clientes (amb 7) ''5'' loja) =
       Resposta 200 (Sucesso True (Some ''Cliente excluido com sucesso''))
   \<and> map rowKey (tabelaClientes (snd (delete_clientes (amb 7) ''5'' loja))) = [''4'']
   \<and> getEntity (tabelaClientes (snd (delete_clientes (amb 7) ''5'' loja))) ''Cliente'' ''5'' =
       Inl (RestError (Some 404) ''ResourceNotFound'')"
proof -
  have f: "falha (amb 7) 0 = None" "falha (amb 7) 1 = None" "falha (amb 7) 2 = None"
    by (simp_all add: amb_def)
  note g = delete_clientes_guarda[OF f]
  have k: "map rowKey (filter (\<lambda>c. \<not> tem ''Cliente'' ''5'' c) (tabelaClientes loja)) = [''4'']"
    by (simp add: loja_eq tem_def)
  have a: "delete_clientes (amb 7) ''9'' loja =
     (Resposta 404 (Sucesso False (Some ''Cliente nao encontrado'')), loja)"
    using g[of loja "''9''"] loja_existe by blast
  have b: "delete_clientes (amb 7) ''4'' loja =
       (Resposta 400 (Sucesso False
          (Some ''Nao e possivel excluir cliente com locacoes ativas'')), loja)"
    using g[of loja "''4''"] loja_existe by blast
  have c: "fst (delete_clientes (amb 7) ''5'' loja) =
          Resposta 200 (Sucesso True (Some ''Cliente excluido com sucesso''))
        \<and> snd (delete_clientes (amb 7) ''5'' loja) =
            loja\<lparr>tabelaClientes :=
              filter (\<lambda>c. \<not> tem ''Cliente'' ''5'' c) (tabelaClientes loja)\<rparr>
        \<and> getEntity (tabelaClientes (snd (delete_clientes (amb 7) ''5'' loja))) ''Cliente'' ''5'' =
            Inl (RestError (Some 404) ''ResourceNotFound'')"
    using g[of loja "''5''"] loja_existe by blast
  from c have "map rowKey (tabelaClientes (snd (delete_clientes (amb 7) ''5'' loja))) = [''4'']"
    using k by simp
  with a b c show ?thesis by blast
qed

section \<open>Listing available vehicles\<close>

text \<open>
  C7, as amended. When the scan of the vehicle table is answered, the listing is the
  summaries, in the order of the scan, of exactly the vehicles whose \<open>disponivel\<close> is
  the boolean true, whose brand equals the brand filter when that filter is supplied
  and not empty, and whose model equals the model filter when that filter is supplied
  and not empty. A filter that is absent or is the empty string lets every available
  vehicle through for its dimension.
\<close>

theorem get_veiculos_disponiveis_exato:
  assumes "falha env 0 = None"
  shows "get_veiculos_disponiveis env marca modelo d =
     Resposta 200 (Veiculos (map resumir
       (filter (\<lambda>v. props v ''disponivel'' = Some (Bool True)
                   \<and> filtro marca (props v ''marca'')
                   \<and> filtro modelo (props v ''modelo''))
          (tabelaVeiculos d))))"
  using assms
  by (simp add: get_veiculos_disponiveis_def listEntities_disponivel_def coleta_filter
      passa_filtro conj_commute cong: conj_cong)

text \<open>
  In the shop the Civic is rented: asking for Toyota Corolla gives the Corolla, asking
  for Toyota alone gives both Toyotas.
\<close>

theorem get_veiculos_disponiveis_exato_witness:
  "map r_placa
     (case corpo (get_veiculos_disponiveis (amb 7) (Some ''Toyota'') (Some ''Corolla'') loja)
      of Veiculos rs \<Rightarrow> rs | _ \<Rightarrow> []) = [''ABC123'']
   \<and> map r_placa
       (case corpo (get_veiculos_disponiveis (amb 7) (Some ''Toyota'') None loja)
        of Veiculos rs \<Rightarrow> rs | _ \<Rightarrow> []) = [''ABC123'', ''DEF456'']"
proof -
  have f: "falha (amb 7) 0 = None" by (simp add: amb_def)
  have a: "map rowKey (filter (\<lambda>v. props v ''disponivel'' = Some (Bool True)
                   \<and> filtro (Some ''Toyota'') (props v ''marca'')
                   \<and> filtro (Some ''Corolla'') (props v ''modelo'')) (tabelaVeiculos loja))
           = [''ABC123'']"
    by (simp add: filtro_def loja_eq)
  have b: "map rowKey (filter (\<lambda>v. props v ''disponivel'' = Some (Bool True)
                   \<and> filtro (Some ''Toyota'') (props v ''marca'')
                   \<and> filtro None (props v ''modelo'')) (tabelaVeiculos loja))
           = [''ABC123'', ''DEF456'']"
    by (simp add: filtro_def loja_eq)
  have c: "r_placa \<circ> resumir = rowKey" by (rule ext) (simp add: resumir_def)
  show ?thesis
    using a b
    by (simp add: get_veiculos_disponiveis_exato[OF f] c)
qed

text \<open>
  The claim as it was stated fails for a brand filter that is supplied and empty
  (\<open>?marca=\<close>): read to the letter, no vehicle has the empty brand and the listing
  would be empty, but the server lists both available Toyotas.
\<close>

theorem get_veiculos_disponiveis_counterexample:
  "get_veiculos_disponiveis (amb 7) (Some []) None loja
     \<noteq> Resposta 200 (Veiculos (disponiveis_literal (Some []) None loja))"
proof -
  have a: "disponiveis_literal (Some []) None loja = []"
    by (simp add: disponiveis_literal_def filtro_literal_def loja_eq)
  have b: "map r_placa (case corpo (get_veiculos_disponiveis (amb 7) (Some []) None loja)
      of Veiculos rs \<Rightarrow> rs | _ \<Rightarrow> []) = [''ABC123'', ''DEF456'']"
    by (simp add: loja_eq amb_def calcula)
  show ?thesis using a b by auto
qed

section \<open>Rental creation for a vehicle that exists\<close>

text \<open>
  C1, as amended. Take a request with a client and with a plate that names an existing
  vehicle, and let the lookup of the vehicle be answered. If the answer is the success,
  the key of the rental was unused, the rental table gains exactly one row, and
  reading the vehicle afterwards finds its \<open>disponivel\<close> false. That row has status
  \<open>ativa\<close> and the plate, and as brand and model it carries the vehicle's brand and
  model where these are truthy, and the placeholder \<open>---\<close> where the vehicle's value
  is missing or empty. The rental is written before the flag: when the rental is
  accepted, an answered flag write gives the success, and a flag write that throws
  gives a 500 with the rental kept and the vehicle table as it was; and whenever the
  rental table is unchanged, nothing is.
\<close>

theorem post_locacoes_veiculo_existente:
  assumes p: "placaVeiculo req = Some p" "p \<noteq> []"
    and c: "truthy (js (clienteId req))"
    and v: "getEntity (tabelaVeiculos d) ''Veiculo'' p = Inr v"
    and f0: "falha env 0 = None"
  shows
    "(fst (post_locacoes env req d) = ok \<longrightarrow>
        \<not> existe (tabelaLocacoes d) ''Locacao'' (toString (now env))
        \<and> tabelaLocacoes (snd (post_locacoes env req d))
            = tabelaLocacoes d @ [entidade env req (Some v)]
        \<and> (\<exists>v'. getEntity (tabelaVeiculos (snd (post_locacoes env req d))) ''Veiculo'' p = Inr v'
                \<and> props v' ''disponivel'' = Some (Bool False)))
     \<and> props (entidade env req (Some v)) ''status'' = Some (Str ''ativa'')
     \<and> props (entidade env req (Some v)) ''placaVeiculo'' = Some (Str p)
     \<and> (truthy (props v ''marca'') \<longrightarrow>
          props (entidade env req (Some v)) ''marca'' = props v ''marca'')
     \<and> (\<not> truthy (props v ''marca'') \<longrightarrow>
          props (entidade env req (Some v)) ''marca'' = Some (Str ''---''))
     \<and> (truthy (props v ''modelo'') \<longrightarrow>
          props (entidade env req (Some v)) ''modelo'' = props v ''modelo'')
     \<and> (\<not> truthy (props v ''modelo'') \<longrightarrow>
          props (entidade env req (Some v)) ''modelo'' = Some (Str ''---''))
     \<and> (falha env 1 = None \<and> \<not> existe (tabelaLocacoes d) ''Locacao'' (toString (now env)) \<longrightarrow>
          (falha env 2 = None \<longrightarrow> fst (post_locacoes env req d) = ok)
          \<and> (\<forall>err. falha env 2 = Some err \<longrightarrow>
                post_locacoes env req d =
                  (Resposta 500 (Sucesso False (Some (message err))),
                   d\<lparr>tabelaLocacoes := tabelaLocacoes d @ [entidade env req (Some v)]\<rparr>)))
     \<and> (tabelaLocacoes (snd (post_locacoes env req d)) = tabelaLocacoes d \<longrightarrow>
          snd (post_locacoes env req d) = d)"
proof -
  let ?e = "entidade env req (Some v)"
  have b: "busca_veiculo env p (tabelaVeiculos d) = Some v"
    using v f0 by (simp add: busca_veiculo_achou)
  have ex: "existe (tabelaVeiculos d) (partitionKey (indisponivel v)) (rowKey (indisponivel v))"
    using getEntity_Inr_D[OF v] by simp
  have upd: "updateEntity (tabelaVeiculos d) (indisponivel v) Merge
               = Inr (map (aplica Merge (indisponivel v)) (tabelaVeiculos d))"
    by (rule updateEntity_existe[OF ex])
  have r: "post_locacoes env req d =
     (case chamada (falha env 1) (createEntity (tabelaLocacoes d) ?e) of
        Inl err \<Rightarrow> (Resposta 500 (Sucesso False (Some (message err))), d)
      | Inr ls \<Rightarrow>
          (case chamada (falha env 2)
                  (Inr (map (aplica Merge (indisponivel v)) (tabelaVeiculos d))) of
             Inl err \<Rightarrow> (Resposta 500 (Sucesso False (Some (message err))),
                         d\<lparr>tabelaLocacoes := ls\<rparr>)
           | Inr vs \<Rightarrow> (ok, d\<lparr>tabelaLocacoes := ls, tabelaVeiculos := vs\<rparr>)))"
    using p c by (simp add: post_locacoes_def Let_def b upd js_def cong: sum.case_cong)
  have flag: "getEntity (map (aplica Merge (indisponivel v)) (tabelaVeiculos d)) ''Veiculo'' p
                = Inr (aplica Merge (indisponivel v) v)"
    by (rule getEntity_map_aplica[OF v])
  have flag2: "props (aplica Merge (indisponivel v) v) ''disponivel'' = Some (Bool False)"
    using getEntity_Inr_D[OF v] by (simp add: aplica_def tem_def indisponivel_def)
  have s1: "fst (post_locacoes env req d) = ok \<longrightarrow>
        \<not> existe (tabelaLocacoes d) ''Locacao'' (toString (now env))
        \<and> tabelaLocacoes (snd (post_locacoes env req d)) = tabelaLocacoes d @ [?e]
        \<and> (\<exists>v'. getEntity (tabelaVeiculos (snd (post_locacoes env req d))) ''Veiculo'' p = Inr v'
                \<and> props v' ''disponivel'' = Some (Bool False))"
  proof (cases "falha env 1")
    case (Some err)
    then show ?thesis by (simp add: r ok_def)
  next
    case None
    show ?thesis
    proof (cases "createEntity (tabelaLocacoes d) ?e")
      case (Inl err)
      then show ?thesis using None by (simp add: r ok_def)
    next
      case (Inr ls)
      from createEntity_Inr_D[OF Inr] have ls: "ls = tabelaLocacoes d @ [?e]"
        and fr: "\<not> existe (tabelaLocacoes d) ''Locacao'' (toString (now env))" by simp_all
      show ?thesis
      proof (cases "falha env 2")
        case (Some err)
        then show ?thesis using None Inr by (simp add: r ok_def)
      next
        case n2: None
        show ?thesis using None Inr n2 ls fr flag flag2 by (simp add: r)
      qed
    qed
  qed
  have s2: "falha env 1 = None \<and> \<not> existe (tabelaLocacoes d) ''Locacao'' (toString (now env)) \<longrightarrow>
          (falha env 2 = None \<longrightarrow> fst (post_locacoes env req d) = ok)
          \<and> (\<forall>err. falha env 2 = Some err \<longrightarrow>
                post_locacoes env req d =
                  (Resposta 500 (Sucesso False (Some (message err))),
                   d\<lparr>tabelaLocacoes := tabelaLocacoes d @ [?e]\<rparr>))"
  proof (intro impI)
    assume a: "falha env 1 = None \<and> \<not> existe (tabelaLocacoes d) ''Locacao'' (toString (now env))"
    then have "createEntity (tabelaLocacoes d) ?e = Inr (tabelaLocacoes d @ [?e])"
      by (simp add: createEntity_novo)
    with a show "(falha env 2 = None \<longrightarrow> fst (post_locacoes env req d) = ok)
          \<and> (\<forall>err. falha env 2 = Some err \<longrightarrow>
                post_locacoes env req d =
                  (Resposta 500 (Sucesso False (Some (message err))),
                   d\<lparr>tabelaLocacoes := tabelaLocacoes d @ [?e]\<rparr>))"
      by (simp add: r)
  qed
  have s3: "tabelaLocacoes (snd (post_locacoes env req d)) = tabelaLocacoes d \<longrightarrow>
          snd (post_locacoes env req d) = d"
  proof (cases "chamada (falha env 1) (createEntity (tabelaLocacoes d) ?e)")
    case (Inl err)
    then show ?thesis by (simp add: r)
  next
    case (Inr ls)
    then have "createEntity (tabelaLocacoes d) ?e = Inr ls"
      by (cases "falha env 1") simp_all
    from createEntity_Inr_D[OF this] have "ls \<noteq> tabelaLocacoes d" by simp
    then show ?thesis using Inr
      by (cases "falha env 2") (simp_all add: r)
  qed
  have m: "props ?e ''status'' = Some (Str ''ativa'')"
      "props ?e ''placaVeiculo'' = Some (Str p)"
      "truthy (props v ''marca'') \<longrightarrow> props ?e ''marca'' = props v ''marca''"
      "\<not> truthy (props v ''marca'') \<longrightarrow> props ?e ''marca'' = Some (Str ''---'')"
      "truthy (props v ''modelo'') \<longrightarrow> props ?e ''modelo'' = props v ''modelo''"
      "\<not> truthy (props v ''modelo'') \<longrightarrow> props ?e ''modelo'' = Some (Str ''---'')"
    using p by (simp_all add: entidade_props js_def ou_casos)
  from s1 s2 s3 m show ?thesis by blast
qed

text \<open>
  In the shop client 5 rents the Corolla at time 7. Answered throughout, the request
  succeeds: the rental table holds rentals 6 and 7, both active, the new one a Toyota
  Corolla, and the Corolla is no longer available. With the flag write thrown, the
  answer is a 500, rental 7 is there all the same and the Corolla is still available.
\<close>

theorem post_locacoes_veiculo_existente_witness:
  "fst (post_locacoes (amb 7) (aluga ''ABC123'' ''5'') loja) = ok
   \<and> map rowKey (tabelaLocacoes (snd (post_locacoes (amb 7) (aluga ''ABC123'' ''5'') loja)))
       = [''6'', ''7'']
   \<and> coluna ''status'' (tabelaLocacoes (snd (post_locacoes (amb 7) (aluga ''ABC123'' ''5'') loja)))
       = [Some (Str ''ativa''), Some (Str ''ativa'')]
   \<and> coluna ''marca'' (tabelaLocacoes (snd (post_locacoes (amb 7) (aluga ''ABC123'' ''5'') loja)))
       = [Some (Str ''Honda''), Some (Str ''Toyota'')]
   \<and> (\<exists>v'. getEntity (tabelaVeiculos (snd (post_locacoes (amb 7) (aluga ''ABC123'' ''5'') loja)))
              ''Veiculo'' ''ABC123'' = Inr v'
          \<and> props v' ''disponivel'' = Some (Bool False))
   \<and> status (fst (post_locacoes (amb_falha 7 2) (aluga ''ABC123'' ''5'') loja)) = 500
   \<and> map rowKey
        (tabelaLocacoes (snd (post_locacoes (amb_falha 7 2) (aluga ''ABC123'' ''5'') loja)))
       = [''6'', ''7'']
   \<and> tabelaVeiculos (snd (post_locacoes (amb_falha 7 2) (aluga ''ABC123'' ''5'') loja))
       = tabelaVeiculos loja"
proof -
  let ?v = "hd (tabelaVeiculos loja)"
  let ?req = "aluga ''ABC123'' ''5''"
  have h: "placaVeiculo ?req = Some ''ABC123''" "''ABC123'' \<noteq> []"
      "truthy (js (clienteId ?req))"
      "getEntity (tabelaVeiculos loja) ''Veiculo'' ''ABC123'' = Inr ?v"
    by (simp_all add: aluga_def js_def loja_eq getEntity_def tem_def)
  have f: "falha (amb 7) 0 = None" "falha (amb_falha 7 2) 0 = None"
    by (simp_all add: amb_def amb_falha_def)
  note t1 = post_locacoes_veiculo_existente[OF h f(1)]
  note t2 = post_locacoes_veiculo_existente[OF h f(2)]
  have fr: "falha (amb 7) 1 = None"
      "\<not> existe (tabelaLocacoes loja) ''Locacao'' (toString (now (amb 7)))"
      "falha (amb 7) 2 = None"
      "falha (amb_falha 7 2) 1 = None"
      "\<not> existe (tabelaLocacoes loja) ''Locacao'' (toString (now (amb_falha 7 2)))"
      "falha (amb_falha 7 2) 2 = Some fora_do_ar"
    by (simp_all add: amb_def amb_falha_def existe_def loja_eq tem_def toString.simps digito_def)
  from t1 fr have s: "fst (post_locacoes (amb 7) ?req loja) = ok" by blast
  with t1 have a: "tabelaLocacoes (snd (post_locacoes (amb 7) ?req loja))
            = tabelaLocacoes loja @ [entidade (amb 7) ?req (Some ?v)]"
    and b: "\<exists>v'. getEntity (tabelaVeiculos (snd (post_locacoes (amb 7) ?req loja)))
              ''Veiculo'' ''ABC123'' = Inr v' \<and> props v' ''disponivel'' = Some (Bool False)"
    by blast+
  from t2 fr have c: "post_locacoes (amb_falha 7 2) ?req loja =
       (Resposta 500 (Sucesso False (Some (message fora_do_ar))),
        loja\<lparr>tabelaLocacoes := tabelaLocacoes loja @ [entidade (amb_falha 7 2) ?req (Some ?v)]\<rparr>)"
    by blast
  have e: "map rowKey (tabelaLocacoes loja @ [entidade (amb 7) ?req (Some ?v)]) = [''6'', ''7'']"
      "coluna ''status'' (tabelaLocacoes loja @ [entidade (amb 7) ?req (Some ?v)])
         = [Some (Str ''ativa''), Some (Str ''ativa'')]"
      "coluna ''marca'' (tabelaLocacoes loja @ [entidade (amb 7) ?req (Some ?v)])
         = [Some (Str ''Honda''), Some (Str ''Toyota'')]"
      "map rowKey (tabelaLocacoes loja @ [entidade (amb_falha 7 2) ?req (Some ?v)]) = [''6'', ''7'']"
    by (simp_all add: loja_eq coluna_def entidade_def amb_def amb_falha_def aluga_def ou_def
        toString.simps digito_def)
  show ?thesis using s a b c e by simp
qed

text \<open>
  The claim as it was stated fails for a vehicle registered with an empty brand: the
  rental succeeds and its brand is the placeholder, not the vehicle's brand.
\<close>

theorem post_locacoes_veiculo_existente_counterexample:
  "fst (post_locacoes (amb 7) (aluga ''ABC123'' ''5'') loja_sem_marca) = ok
   \<and> coluna ''marca'' (tabelaVeiculos loja_sem_marca) = [Some (Str [])]
   \<and> coluna ''marca''
        (tabelaLocacoes (snd (post_locacoes (amb 7) (aluga ''ABC123'' ''5'') loja_sem_marca)))
       = [Some (Str ''---'')]"
  by (simp add: exemplos calcula)

section \<open>Validation of a rental request, and a plate that names no vehicle\<close>

lemma post_locacoes_invalido:
  "\<not> truthy (js (placaVeiculo req)) \<or> \<not> truthy (js (clienteId req)) \<Longrightarrow>
   post_locacoes env req d =
     (Resposta 400 (Sucesso False (Some ''Campos obrigatorios ausentes.'')), d)"
  by (auto simp: post_locacoes_def)

lemma truthy_js: "truthy (js x) \<longleftrightarrow> x \<noteq> None \<and> x \<noteq> Some []"
  by (cases x) (simp_all add: js_def)

lemma truthy_json_str: "truthy_json (map_option JStr x) = truthy (js x)"
  by (cases x) (simp_all add: js_def)

lemma guarda_str: "guarda (map_option JStr x) = js x"
  by (cases x) (simp_all add: js_def)

lemma escalar_str: "escalar (map_option JStr x)"
  by (cases x) simp_all

text \<open>
  On a body of strings the handler for any JSON body is the handler for strings.
\<close>

lemma post_locacoes_json_tipado:
  assumes "\<And>x. pf (map_option JStr x) = parseFloat env x"
  shows "post_locacoes_json env pf (corpo_de req) d = post_locacoes env req d"
proof (cases "truthy (js (placaVeiculo req)) \<and> truthy (js (clienteId req))")
  case False
  then show ?thesis
    by (auto simp: post_locacoes_json_def post_locacoes_def corpo_de_def truthy_json_str)
next
  case True
  then obtain p where p: "placaVeiculo req = Some p" by (auto simp: truthy_js)
  have e: "entidade_json env pf (corpo_de req) w = entidade env req w" for w
    by (simp add: entidade_json_def entidade_def corpo_de_def guarda_str assms)
  have a: "armazenavel (corpo_de req)"
    by (simp add: armazenavel_def corpo_de_def escalar_str)
  have b: "busca_veiculo_json env (c_placaVeiculo (corpo_de req)) vs
             = busca_veiculo env (the (placaVeiculo req)) vs" for vs
    by (simp add: busca_veiculo_json_def corpo_de_def p)
  have t: "truthy_json (c_placaVeiculo (corpo_de req))" "truthy_json (c_clienteId (corpo_de req))"
    using True by (simp_all add: corpo_de_def truthy_json_str)
  from True t show ?thesis
    by (simp add: post_locacoes_json_def post_locacoes_def e a b createEntity_json_def)
qed

lemma falsy_json:
  "\<not> truthy_json x \<longleftrightarrow>
     x = None \<or> x = Some JNull \<or> x = Some (JBool False) \<or> x = Some (JNum (Fin 0))
     \<or> x = Some (JNum NaN) \<or> x = Some (JStr [])"
proof (cases x)
  case None
  then show ?thesis by simp
next
  case (Some j)
  show ?thesis
  proof (cases j)
    case (JNum n)
    with Some show ?thesis by (cases n) simp_all
  qed (simp_all add: Some)
qed

lemma post_locacoes_json_invalido:
  "\<not> truthy_json (c_placaVeiculo body) \<or> \<not> truthy_json (c_clienteId body) \<Longrightarrow>
   post_locacoes_json env pf body d =
     (Resposta 400 (Sucesso False (Some ''Campos obrigatorios ausentes.'')), d)"
  by (auto simp: post_locacoes_json_def)

lemma post_locacoes_json_valido_status:
  "truthy_json (c_placaVeiculo body) \<Longrightarrow> truthy_json (c_clienteId body) \<Longrightarrow>
   status (fst (post_locacoes_json env pf body d)) = 200
   \<or> status (fst (post_locacoes_json env pf body d)) = 500"
  by (simp add: post_locacoes_json_def Let_def ok_def split: sum.splits option.splits)

text \<open>
  C4, as amended. The body of the request is any JSON. Rental creation answers 400 if
  and only if the plate or the client is falsy, and then the store is as before; a
  field is falsy exactly when it is absent, \<open>null\<close>, \<open>false\<close>, the number 0 (or NaN,
  which no JSON text gives) or the empty string. When the plate is a non-empty
  string that names no vehicle and the client is truthy, the request does not fail
  for that: if the row can be written (no field to store is an array or an object,
  the write is answered and the key is unused), the answer is the success and the
  store gains the one rental, active, with brand and model \<open>---\<close>.
\<close>

theorem post_locacoes_validacao:
  "(status (fst (post_locacoes_json env pf body d)) = 400 \<longleftrightarrow>
      \<not> truthy_json (c_placaVeiculo body) \<or> \<not> truthy_json (c_clienteId body))
   \<and> (\<forall>x. \<not> truthy_json x \<longleftrightarrow>
          x = None \<or> x = Some JNull \<or> x = Some (JBool False) \<or> x = Some (JNum (Fin 0))
          \<or> x = Some (JNum NaN) \<or> x = Some (JStr []))
   \<and> (status (fst (post_locacoes_json env pf body d)) = 400 \<longrightarrow>
        post_locacoes_json env pf body d =
          (Resposta 400 (Sucesso False (Some ''Campos obrigatorios ausentes.'')), d))
   \<and> (\<forall>p. c_placaVeiculo body = Some (JStr p) \<and> p \<noteq> []
          \<and> truthy_json (c_clienteId body)
          \<and> armazenavel body
          \<and> \<not> existe (tabelaVeiculos d) ''Veiculo'' p
          \<and> falha env 1 = None
          \<and> \<not> existe (tabelaLocacoes d) ''Locacao'' (toString (now env)) \<longrightarrow>
        post_locacoes_json env pf body d =
          (ok, d\<lparr>tabelaLocacoes := tabelaLocacoes d @ [entidade_json env pf body None]\<rparr>)
        \<and> props (entidade_json env pf body None) ''marca'' = Some (Str ''---'')
        \<and> props (entidade_json env pf body None) ''modelo'' = Some (Str ''---'')
        \<and> props (entidade_json env pf body None) ''status'' = Some (Str ''ativa'')
        \<and> props (entidade_json env pf body None) ''placaVeiculo'' = Some (Str p))"
proof (intro conjI allI impI)
  show i: "status (fst (post_locacoes_json env pf body d)) = 400 \<longleftrightarrow>
      \<not> truthy_json (c_placaVeiculo body) \<or> \<not> truthy_json (c_clienteId body)"
  proof (cases "truthy_json (c_placaVeiculo body) \<and> truthy_json (c_clienteId body)")
    case True
    with post_locacoes_json_valido_status[of body env pf d] show ?thesis by auto
  next
    case False
    then have "post_locacoes_json env pf body d =
        (Resposta 400 (Sucesso False (Some ''Campos obrigatorios ausentes.'')), d)"
      by (intro post_locacoes_json_invalido) blast
    with False show ?thesis by auto
  qed
  show "post_locacoes_json env pf body d =
          (Resposta 400 (Sucesso False (Some ''Campos obrigatorios ausentes.'')), d)"
    if "status (fst (post_locacoes_json env pf body d)) = 400"
  proof -
    from that i
    have "\<not> truthy_json (c_placaVeiculo body) \<or> \<not> truthy_json (c_clienteId body)"
      by simp
    then show ?thesis by (rule post_locacoes_json_invalido)
  qed
next
  fix x :: "json option"
  show "\<not> truthy_json x \<longleftrightarrow>
          x = None \<or> x = Some JNull \<or> x = Some (JBool False) \<or> x = Some (JNum (Fin 0))
          \<or> x = Some (JNum NaN) \<or> x = Some (JStr [])"
    by (rule falsy_json)
next
  fix p
  assume a: "c_placaVeiculo body = Some (JStr p) \<and> p \<noteq> []
          \<and> truthy_json (c_clienteId body)
          \<and> armazenavel body
          \<and> \<not> existe (tabelaVeiculos d) ''Veiculo'' p
          \<and> falha env 1 = None
          \<and> \<not> existe (tabelaLocacoes d) ''Locacao'' (toString (now env))"
  let ?e = "entidade_json env pf body None"
  have k: "partitionKey ?e = ''Locacao''" "rowKey ?e = toString (now env)"
    by (simp_all add: entidade_json_def)
  from a have b: "busca_veiculo_json env (c_placaVeiculo body) (tabelaVeiculos d) = None"
    by (simp add: busca_veiculo_json_def busca_veiculo_nao_existe)
  from a k have cr: "createEntity_json (tabelaLocacoes d) body ?e
                     = Inr (tabelaLocacoes d @ [?e])"
    by (simp add: createEntity_json_def createEntity_novo)
  from a b cr show "post_locacoes_json env pf body d =
          (ok, d\<lparr>tabelaLocacoes := tabelaLocacoes d @ [?e]\<rparr>)"
    by (simp add: post_locacoes_json_def Let_def)
  show "props ?e ''marca'' = Some (Str ''---'')"
    "props ?e ''modelo'' = Some (Str ''---'')"
    "props ?e ''status'' = Some (Str ''ativa'')"
    by (simp_all add: entidade_json_def ou_def)
  from a show "props ?e ''placaVeiculo'' = Some (Str p)"
    by (simp add: entidade_json_def)
qed

text \<open>
  In the shop: a body with the plate 0 gets the 400; a body for the plate ZZZ999,
  which no vehicle has, with the client 5 and the value 600 as numbers, succeeds and
  adds rental 7 with brand and model \<open>---\<close>.
\<close>

theorem post_locacoes_validacao_witness:
  "status (fst (post_locacoes_json (amb 7) numero_json
                  (corpo_novo (JNum (Fin 0)) (JStr ''5'')) loja)) = 400
   \<and> fst (post_locacoes_json (amb 7) numero_json
             (corpo_novo (JStr ''ZZZ999'') (JNum (Fin 5))) loja) = ok
   \<and> map rowKey
        (tabelaLocacoes (snd (post_locacoes_json (amb 7) numero_json
                                (corpo_novo (JStr ''ZZZ999'') (JNum (Fin 5))) loja)))
       = [''6'', ''7'']
   \<and> coluna ''marca''
        (tabelaLocacoes (snd (post_locacoes_json (amb 7) numero_json
                                (corpo_novo (JStr ''ZZZ999'') (JNum (Fin 5))) loja)))
       = [Some (Str ''Honda''), Some (Str ''---'')]
   \<and> coluna ''modelo''
        (tabelaLocacoes (snd (post_locacoes_json (amb 7) numero_json
                                (corpo_novo (JStr ''ZZZ999'') (JNum (Fin 5))) loja)))
       = [Some (Str ''Civic''), Some (Str ''---'')]"
proof -
  let ?c = "corpo_novo (JStr ''ZZZ999'') (JNum (Fin 5))"
  note t1 = post_locacoes_validacao[of "amb 7" numero_json
              "corpo_novo (JNum (Fin 0)) (JStr ''5'')" loja]
  note t2 = post_locacoes_validacao[of "amb 7" numero_json ?c loja]
  have a: "status (fst (post_locacoes_json (amb 7) numero_json
                  (corpo_novo (JNum (Fin 0)) (JStr ''5'')) loja)) = 400"
    using t1 by (simp add: corpo_novo_def)
  have h: "c_placaVeiculo ?c = Some (JStr ''ZZZ999'') \<and> ''ZZZ999'' \<noteq> []
          \<and> truthy_json (c_clienteId ?c)
          \<and> armazenavel ?c
          \<and> \<not> existe (tabelaVeiculos loja) ''Veiculo'' ''ZZZ999''
          \<and> falha (amb 7) 1 = None
          \<and> \<not> existe (tabelaLocacoes loja) ''Locacao'' (toString (now (amb 7)))"
    by (simp add: corpo_novo_def armazenavel_def existe_def loja_eq tem_def amb_def
        toString.simps digito_def)
  from t2 h have b: "post_locacoes_json (amb 7) numero_json ?c loja =
          (ok, loja\<lparr>tabelaLocacoes :=
                      tabelaLocacoes loja @ [entidade_json (amb 7) numero_json ?c None]\<rparr>)"
    by blast
  have e: "map rowKey (tabelaLocacoes loja @ [entidade_json (amb 7) numero_json ?c None])
             = [''6'', ''7'']"
      "coluna ''marca'' (tabelaLocacoes loja @ [entidade_json (amb 7) numero_json ?c None])
         = [Some (Str ''Honda''), Some (Str ''---'')]"
      "coluna ''modelo'' (tabelaLocacoes loja @ [entidade_json (amb 7) numero_json ?c None])
         = [Some (Str ''Civic''), Some (Str ''---'')]"
    by (simp_all add: loja_eq coluna_def entidade_json_def amb_def corpo_novo_def ou_def
        toString.simps digito_def)
  show ?thesis using a b e by simp
qed

text \<open>
  The claim as it was stated fails for a field that is present and falsy: a body
  whose plate is the empty string, and a body whose plate is the number 0, carry both
  fields and get the 400.
\<close>

theorem post_locacoes_validacao_counterexample:
  "c_placaVeiculo (corpo_novo (JStr []) (JStr ''5'')) \<noteq> None
   \<and> c_clienteId (corpo_novo (JStr []) (JStr ''5'')) \<noteq> None
   \<and> status (fst (post_locacoes_json (amb 7) numero_json
                    (corpo_novo (JStr []) (JStr ''5'')) loja)) = 400
   \<and> c_placaVeiculo (corpo_novo (JNum (Fin 0)) (JStr ''5'')) \<noteq> None
   \<and> c_clienteId (corpo_novo (JNum (Fin 0)) (JStr ''5'')) \<noteq> None
   \<and> status (fst (post_locacoes_json (amb 7) numero_json
                    (corpo_novo (JNum (Fin 0)) (JStr ''5'')) loja)) = 400"
  by (simp add: corpo_novo_def post_locacoes_json_def)

section \<open>Rental creation does not read the availability flag\<close>

lemma tem_com_disponivel [simp]: "tem pk rk (com_disponivel b x) = tem pk rk x"
  by (simp add: com_disponivel_def tem_def)

lemma find_map_com_disponivel:
  "find (tem pk rk) (map (com_disponivel b) t)
     = map_option (com_disponivel b) (find (tem pk rk) t)"
  by (induction t) simp_all

lemma existe_map_com_disponivel [simp]:
  "existe (map (com_disponivel b) t) pk rk = existe t pk rk"
  by (simp add: existe_def)

lemma busca_veiculo_com_disponivel:
  "busca_veiculo env p (map (com_disponivel b) vs)
     = map_option (com_disponivel b) (busca_veiculo env p vs)"
  by (cases "falha env 0")
     (simp_all add: busca_veiculo_def getEntity_def find_map_com_disponivel
        split: option.splits)

lemma entidade_com_disponivel:
  "entidade env req (map_option (com_disponivel b) w) = entidade env req w"
  "entidade env req (Some (com_disponivel b v)) = entidade env req (Some v)"
  by (cases w) (simp_all add: entidade_def com_disponivel_def)

lemma updateEntity_com_disponivel:
  "(\<exists>err. updateEntity (map (com_disponivel b) t) (indisponivel (com_disponivel b v)) m = Inl err)
     \<longleftrightarrow> (\<exists>err. updateEntity t (indisponivel v) m = Inl err)"
  "updateEntity (map (com_disponivel b) t) (indisponivel (com_disponivel b v)) m = Inl err
     \<longleftrightarrow> updateEntity t (indisponivel v) m = Inl err"
  by (auto simp: updateEntity_def find_map_com_disponivel indisponivel_def com_disponivel_def
      split: option.splits)

lemma post_locacoes_com_disponivel:
  "fst (post_locacoes env req (d\<lparr>tabelaVeiculos := map (com_disponivel b) (tabelaVeiculos d)\<rparr>))
     = fst (post_locacoes env req d)
   \<and> tabelaLocacoes
        (snd (post_locacoes env req
               (d\<lparr>tabelaVeiculos := map (com_disponivel b) (tabelaVeiculos d)\<rparr>)))
     = tabelaLocacoes (snd (post_locacoes env req d))"
proof (cases "truthy (js (placaVeiculo req)) \<and> truthy (js (clienteId req))")
  case False
  then show ?thesis by (auto simp: post_locacoes_def)
next
  case True
  let ?w = "busca_veiculo env (the (placaVeiculo req)) (tabelaVeiculos d)"
  show ?thesis
  proof (cases "chamada (falha env 1) (createEntity (tabelaLocacoes d) (entidade env req ?w))")
    case (Inl err)
    with True show ?thesis
      by (simp add: post_locacoes_def Let_def busca_veiculo_com_disponivel
          entidade_com_disponivel)
  next
    case (Inr ls)
    show ?thesis
    proof (cases ?w)
      case None
      with True Inr show ?thesis
        by (simp add: post_locacoes_def Let_def busca_veiculo_com_disponivel
            entidade_com_disponivel)
    next
      case (Some v)
      show ?thesis
      proof (cases "falha env 2")
        case f: (Some err)
        with True Inr Some show ?thesis
          by (simp add: post_locacoes_def Let_def busca_veiculo_com_disponivel
              entidade_com_disponivel)
      next
        case f: None
        show ?thesis
        proof (cases "updateEntity (tabelaVeiculos d) (indisponivel v) Merge")
          case u: (Inl err)
          then have "updateEntity (map (com_disponivel b) (tabelaVeiculos d))
                       (indisponivel (com_disponivel b v)) Merge = Inl err"
            by (simp add: updateEntity_com_disponivel)
          with True Inr Some f u show ?thesis
            by (simp add: post_locacoes_def Let_def busca_veiculo_com_disponivel
                entidade_com_disponivel)
        next
          case u: (Inr vs)
          obtain vs' where "updateEntity (map (com_disponivel b) (tabelaVeiculos d))
                       (indisponivel (com_disponivel b v)) Merge = Inr vs'"
            using u updateEntity_com_disponivel(1)[where b=b and t="tabelaVeiculos d" and v=v and m=Merge]
            by (cases "updateEntity (map (com_disponivel b) (tabelaVeiculos d))
                       (indisponivel (com_disponivel b v)) Merge") auto
          with True Inr Some f u show ?thesis
            by (simp add: post_locacoes_def Let_def busca_veiculo_com_disponivel
                entidade_com_disponivel)
        qed
      qed
    qed
  qed
qed

text \<open>
  C10. Take a vehicle whose \<open>disponivel\<close> is already false, and a request for its plate
  with both required fields, answered throughout and with an unused key. The request
  succeeds and the rental table gains one row, active, for that plate. Every rental
  that was there is still there and is another row than the new one, so an earlier
  active rental of the plate now stands beside a second one: the vehicle is booked
  twice by two requests one after the other. What is more, for every request and every
  store, the answer and the rental table after the request are the same whatever the
  \<open>disponivel\<close> properties of the vehicle rows are.
\<close>

theorem post_locacoes_ignora_disponivel:
  assumes p: "placaVeiculo req = Some p" "p \<noteq> []"
    and c: "truthy (js (clienteId req))"
    and v: "getEntity (tabelaVeiculos d) ''Veiculo'' p = Inr v"
    and nd: "props v ''disponivel'' = Some (Bool False)"
    and f: "falha env 0 = None" "falha env 1 = None" "falha env 2 = None"
    and fr: "\<not> existe (tabelaLocacoes d) ''Locacao'' (toString (now env))"
  shows
    "fst (post_locacoes env req d) = ok
     \<and> tabelaLocacoes (snd (post_locacoes env req d))
         = tabelaLocacoes d @ [entidade env req (Some v)]
     \<and> ativa_da_placa p (entidade env req (Some v))
     \<and> (\<forall>l\<in>set (tabelaLocacoes d).
           l \<in> set (tabelaLocacoes (snd (post_locacoes env req d)))
           \<and> l \<noteq> entidade env req (Some v))
     \<and> (\<exists>v'. getEntity (tabelaVeiculos (snd (post_locacoes env req d))) ''Veiculo'' p = Inr v'
             \<and> props v' ''disponivel'' = Some (Bool False))
     \<and> (\<forall>b. fst (post_locacoes env req
                   (d\<lparr>tabelaVeiculos := map (com_disponivel b) (tabelaVeiculos d)\<rparr>))
               = fst (post_locacoes env req d)
             \<and> tabelaLocacoes
                 (snd (post_locacoes env req
                        (d\<lparr>tabelaVeiculos := map (com_disponivel b) (tabelaVeiculos d)\<rparr>)))
               = tabelaLocacoes (snd (post_locacoes env req d)))"
proof -
  let ?e = "entidade env req (Some v)"
  have b: "busca_veiculo env p (tabelaVeiculos d) = Some v"
    using v f by (simp add: busca_veiculo_achou)
  have "existe (tabelaVeiculos d) (partitionKey (indisponivel v)) (rowKey (indisponivel v))"
    using getEntity_Inr_D[OF v] by simp
  then have upd: "updateEntity (tabelaVeiculos d) (indisponivel v) Merge
               = Inr (map (aplica Merge (indisponivel v)) (tabelaVeiculos d))"
    by (rule updateEntity_existe)
  have cr: "createEntity (tabelaLocacoes d) ?e = Inr (tabelaLocacoes d @ [?e])"
    using fr by (simp add: createEntity_novo)
  have r: "post_locacoes env req d =
      (ok, d\<lparr>tabelaLocacoes := tabelaLocacoes d @ [?e],
             tabelaVeiculos := map (aplica Merge (indisponivel v)) (tabelaVeiculos d)\<rparr>)"
    using p c f by (simp add: post_locacoes_def Let_def b upd cr js_def)
  have a: "ativa_da_placa p ?e"
    using p by (simp add: ativa_da_placa_def entidade_props js_def)
  have o: "\<forall>l\<in>set (tabelaLocacoes d). l \<noteq> ?e"
  proof
    fix l assume "l \<in> set (tabelaLocacoes d)"
    with fr show "l \<noteq> ?e" by (auto simp: existe_def tem_def)
  qed
  have g: "getEntity (map (aplica Merge (indisponivel v)) (tabelaVeiculos d)) ''Veiculo'' p
                = Inr (aplica Merge (indisponivel v) v)"
    by (rule getEntity_map_aplica[OF v])
  have g2: "props (aplica Merge (indisponivel v) v) ''disponivel'' = Some (Bool False)"
    using getEntity_Inr_D[OF v] by (simp add: aplica_def tem_def indisponivel_def)
  show ?thesis
    using a o g g2 post_locacoes_com_disponivel[where env=env and req=req and d=d]
    by (simp add: r)
qed

text \<open>
  In the shop the Civic is out on rental 6 and unavailable. Client 5 asks for it at
  time 7 and gets it: rentals 6 and 7 are both active on the plate GHI789.
\<close>

theorem post_locacoes_ignora_disponivel_witness:
  "coluna ''disponivel'' (tabelaVeiculos loja)
      = [Some (Bool True), Some (Bool True), Some (Bool False)]
   \<and> fst (post_locacoes (amb 7) (aluga ''GHI789'' ''5'') loja) = ok
   \<and> map rowKey (tabelaLocacoes (snd (post_locacoes (amb 7) (aluga ''GHI789'' ''5'') loja)))
       = [''6'', ''7'']
   \<and> coluna ''placaVeiculo''
        (tabelaLocacoes (snd (post_locacoes (amb 7) (aluga ''GHI789'' ''5'') loja)))
       = [Some (Str ''GHI789''), Some (Str ''GHI789'')]
   \<and> coluna ''status''
        (tabelaLocacoes (snd (post_locacoes (amb 7) (aluga ''GHI789'' ''5'') loja)))
       = [Some (Str ''ativa''), Some (Str ''ativa'')]"
proof -
  let ?v = "last (tabelaVeiculos loja)"
  let ?req = "aluga ''GHI789'' ''5''"
  have h: "placaVeiculo ?req = Some ''GHI789''" "''GHI789'' \<noteq> []"
      "truthy (js (clienteId ?req))"
      "getEntity (tabelaVeiculos loja) ''Veiculo'' ''GHI789'' = Inr ?v"
      "props ?v ''disponivel'' = Some (Bool False)"
      "falha (amb 7) 0 = None" "falha (amb 7) 1 = None" "falha (amb 7) 2 = None"
      "\<not> existe (tabelaLocacoes loja) ''Locacao'' (toString (now (amb 7)))"
    by (simp_all add: aluga_def js_def loja_eq getEntity_def tem_def amb_def existe_def
        toString.simps digito_def)
  note t = post_locacoes_ignora_disponivel[OF h]
  have e: "map rowKey (tabelaLocacoes loja @ [entidade (amb 7) ?req (Some ?v)]) = [''6'', ''7'']"
      "coluna ''placaVeiculo'' (tabelaLocacoes loja @ [entidade (amb 7) ?req (Some ?v)])
         = [Some (Str ''GHI789''), Some (Str ''GHI789'')]"
      "coluna ''status'' (tabelaLocacoes loja @ [entidade (amb 7) ?req (Some ?v)])
         = [Some (Str ''ativa''), Some (Str ''ativa'')]"
      "coluna ''disponivel'' (tabelaVeiculos loja)
         = [Some (Bool True), Some (Bool True), Some (Bool False)]"
    by (simp_all add: loja_eq coluna_def entidade_def amb_def aluga_def js_def
        toString.simps digito_def)
  from t have "fst (post_locacoes (amb 7) ?req loja) = ok"
    and "tabelaLocacoes (snd (post_locacoes (amb 7) ?req loja))
         = tabelaLocacoes loja @ [entidade (amb 7) ?req (Some ?v)]"
    by blast+
  with e show ?thesis by simp
qed

section \<open>What a request can do to a table\<close>

lemma chamada_Inr: "chamada f r = Inr y \<longleftrightarrow> f = None \<and> r = Inr y"
  by (cases f) simp_all

lemma cancelada_chaves [simp]:
  "partitionKey (cancelada l) = partitionKey l" "rowKey (cancelada l) = rowKey l"
  "props (cancelada l) = [''status'' \<mapsto> Str ''cancelada'']"
  by (simp_all add: cancelada_def)

lemma disponivel_chaves [simp]:
  "partitionKey (disponivel v) = partitionKey v" "rowKey (disponivel v) = rowKey v"
  "props (disponivel v) = [''disponivel'' \<mapsto> Bool True]"
  by (simp_all add: disponivel_def)

lemma indisponivel_props [simp]:
  "props (indisponivel v) = [''disponivel'' \<mapsto> Bool False]"
  by (simp add: indisponivel_def)

text \<open>What a request can do to the rental table, and to the vehicle table.\<close>

lemma devolve_forma:
  "devolve env l vs = vs
   \<or> (\<exists>v. devolve env l vs = map (aplica Merge (disponivel v)) vs)"
  by (auto simp: devolve_def chamada_Inr simp del: map_eq_conv
      split: option.splits jsval.splits sum.splits dest!: updateEntity_Inr_D)

lemma post_locacoes_locacoes:
  "tabelaLocacoes (snd (post_locacoes env req d)) = tabelaLocacoes d
   \<or> (\<exists>w. truthy (js (placaVeiculo req))
          \<and> createEntity (tabelaLocacoes d) (entidade env req w)
              = Inr (tabelaLocacoes (snd (post_locacoes env req d))))"
  by (auto simp: post_locacoes_def Let_def chamada_Inr split: sum.splits option.splits)

lemma post_locacoes_veiculos:
  "tabelaVeiculos (snd (post_locacoes env req d)) = tabelaVeiculos d
   \<or> (\<exists>v. tabelaVeiculos (snd (post_locacoes env req d))
              = map (aplica Merge (indisponivel v)) (tabelaVeiculos d))"
  by (auto simp: post_locacoes_def Let_def chamada_Inr simp del: map_eq_conv
      split: sum.splits option.splits dest!: updateEntity_Inr_D)

lemma post_cancelar_locacao_locacoes:
  "tabelaLocacoes (snd (post_cancelar_locacao env k d)) = tabelaLocacoes d
   \<or> (\<exists>l. tabelaLocacoes (snd (post_cancelar_locacao env k d))
              = map (aplica Merge (cancelada l)) (tabelaLocacoes d))"
  by (auto simp: post_cancelar_locacao_def chamada_Inr simp del: map_eq_conv
      split: sum.splits dest!: updateEntity_Inr_D)

lemma post_cancelar_locacao_veiculos:
  "tabelaVeiculos (snd (post_cancelar_locacao env k d)) = tabelaVeiculos d
   \<or> (\<exists>v. tabelaVeiculos (snd (post_cancelar_locacao env k d))
              = map (aplica Merge (disponivel v)) (tabelaVeiculos d))"
  using devolve_forma[of env _ "tabelaVeiculos d"]
  by (auto simp: post_cancelar_locacao_def simp del: map_eq_conv split: sum.splits)

lemma post_veiculos_forma:
  "tabelaLocacoes (snd (post_veiculos env req d)) = tabelaLocacoes d
   \<and> (tabelaVeiculos (snd (post_veiculos env req d)) = tabelaVeiculos d
        \<or> (\<exists>e. partitionKey e = ''Veiculo''
               \<and> createEntity (tabelaVeiculos d) e
                   = Inr (tabelaVeiculos (snd (post_veiculos env req d)))))"
  by (auto simp: post_veiculos_def createEntity_opt_def chamada_Inr
      split: sum.splits option.splits)

lemma clientes_forma:
  "tabelaLocacoes (snd (post_clientes env req d)) = tabelaLocacoes d"
  "tabelaVeiculos (snd (post_clientes env req d)) = tabelaVeiculos d"
  "tabelaLocacoes (snd (put_clientes env ident req d)) = tabelaLocacoes d"
  "tabelaVeiculos (snd (put_clientes env ident req d)) = tabelaVeiculos d"
  "tabelaLocacoes (snd (delete_clientes env ident d)) = tabelaLocacoes d"
  "tabelaVeiculos (snd (delete_clientes env ident d)) = tabelaVeiculos d"
  by (auto simp: post_clientes_def put_clientes_def delete_clientes_def
      split: sum.splits option.splits)

lemma servidor_locacoes:
  "tabelaLocacoes (snd (servidor env p d)) = tabelaLocacoes d
   \<or> (\<exists>e. partitionKey e = ''Locacao''
          \<and> (\<exists>q. props e ''placaVeiculo'' = Some (Str q) \<and> q \<noteq> [])
          \<and> props e ''status'' = Some (Str ''ativa'')
          \<and> createEntity (tabelaLocacoes d) e = Inr (tabelaLocacoes (snd (servidor env p d))))
   \<or> (\<exists>e. props e = [''status'' \<mapsto> Str ''cancelada'']
          \<and> tabelaLocacoes (snd (servidor env p d)) = map (aplica Merge e) (tabelaLocacoes d))"
proof (cases p)
  case (PostLocacoes req)
  from post_locacoes_locacoes[of env req d] show ?thesis
  proof
    assume "tabelaLocacoes (snd (post_locacoes env req d)) = tabelaLocacoes d"
    then show ?thesis by (simp add: PostLocacoes)
  next
    assume "\<exists>w. truthy (js (placaVeiculo req))
          \<and> createEntity (tabelaLocacoes d) (entidade env req w)
              = Inr (tabelaLocacoes (snd (post_locacoes env req d)))"
    then obtain w where w: "truthy (js (placaVeiculo req))"
      "createEntity (tabelaLocacoes d) (entidade env req w)
              = Inr (tabelaLocacoes (snd (post_locacoes env req d)))" by blast
    from w(1) obtain q where "placaVeiculo req = Some q" "q \<noteq> []"
      by (cases "placaVeiculo req") (auto simp: js_def)
    then have "props (entidade env req w) ''placaVeiculo'' = Some (Str q) \<and> q \<noteq> []"
      by (simp add: entidade_props js_def)
    with w(2) show ?thesis
      by (intro disjI2 disjI1 exI[of _ "entidade env req w"])
         (auto simp: PostLocacoes entidade_props)
  qed
next
  case (PostCancelarLocacao k)
  from post_cancelar_locacao_locacoes[of env k d] show ?thesis
  proof
    assume "tabelaLocacoes (snd (post_cancelar_locacao env k d)) = tabelaLocacoes d"
    then show ?thesis by (simp add: PostCancelarLocacao)
  next
    assume "\<exists>l. tabelaLocacoes (snd (post_cancelar_locacao env k d))
              = map (aplica Merge (cancelada l)) (tabelaLocacoes d)"
    then obtain l where "tabelaLocacoes (snd (post_cancelar_locacao env k d))
              = map (aplica Merge (cancelada l)) (tabelaLocacoes d)" ..
    then show ?thesis
      by (intro disjI2 exI[of _ "cancelada l"]) (simp add: PostCancelarLocacao)
  qed
qed (simp_all add: post_veiculos_forma clientes_forma)

lemma servidor_veiculos:
  "tabelaVeiculos (snd (servidor env p d)) = tabelaVeiculos d
   \<or> (\<exists>e. partitionKey e = ''Veiculo''
          \<and> createEntity (tabelaVeiculos d) e = Inr (tabelaVeiculos (snd (servidor env p d))))
   \<or> (\<exists>e b. props e = [''disponivel'' \<mapsto> Bool b]
          \<and> tabelaVeiculos (snd (servidor env p d)) = map (aplica Merge e) (tabelaVeiculos d))"
proof (cases p)
  case (PostVeiculos req)
  with post_veiculos_forma[of env req d] show ?thesis by auto
next
  case (PostLocacoes req)
  from post_locacoes_veiculos[of env req d] show ?thesis
  proof
    assume "tabelaVeiculos (snd (post_locacoes env req d)) = tabelaVeiculos d"
    then show ?thesis by (simp add: PostLocacoes)
  next
    assume "\<exists>v. tabelaVeiculos (snd (post_locacoes env req d))
              = map (aplica Merge (indisponivel v)) (tabelaVeiculos d)"
    then obtain v where "tabelaVeiculos (snd (post_locacoes env req d))
              = map (aplica Merge (indisponivel v)) (tabelaVeiculos d)" ..
    then show ?thesis
      by (intro disjI2 exI[of _ "indisponivel v"] exI[of _ False]) (simp add: PostLocacoes)
  qed
next
  case (PostCancelarLocacao k)
  from post_cancelar_locacao_veiculos[of env k d] show ?thesis
  proof
    assume "tabelaVeiculos (snd (post_cancelar_locacao env k d)) = tabelaVeiculos d"
    then show ?thesis by (simp add: PostCancelarLocacao)
  next
    assume "\<exists>v. tabelaVeiculos (snd (post_cancelar_locacao env k d))
              = map (aplica Merge (disponivel v)) (tabelaVeiculos d)"
    then obtain v where "tabelaVeiculos (snd (post_cancelar_locacao env k d))
              = map (aplica Merge (disponivel v)) (tabelaVeiculos d)" ..
    then show ?thesis
      by (intro disjI2 exI[of _ "disponivel v"] exI[of _ True]) (simp add: PostCancelarLocacao)
  qed
qed (simp_all add: clientes_forma)


lemma aplica_chaves [simp]:
  "partitionKey (aplica m e x) = partitionKey x" "rowKey (aplica m e x) = rowKey x"
  by (cases m; simp add: aplica_def)+

lemma map_aplica_chaves [simp]:
  "map rowKey (map (aplica m e) t) = map rowKey t"
  "map partitionKey (map (aplica m e) t) = map partitionKey t"
  by simp_all

lemma props_aplica_Merge:
  "props (aplica Merge e x) c =
     (if tem (partitionKey e) (rowKey e) x
      then (case props e c of None \<Rightarrow> props x c | Some y \<Rightarrow> Some y)
      else props x c)"
  by (simp add: aplica_def map_add_def)

lemma createEntity_distinct:
  assumes "createEntity t e = Inr t'" "\<forall>x\<in>set t. partitionKey x = partitionKey e"
    "distinct (map rowKey t)"
  shows "distinct (map rowKey t') \<and> set t' = insert e (set t)"
proof -
  from createEntity_Inr_D[OF assms(1)] have t': "t' = t @ [e]"
    and n: "\<not> existe t (partitionKey e) (rowKey e)" by simp_all
  from n assms(2) have "rowKey e \<notin> rowKey ` set t"
    by (auto simp: existe_def tem_def)
  with assms(3) t' show ?thesis by auto
qed

lemma veiculos_ok_create:
  "veiculos_ok vs \<Longrightarrow> partitionKey e = ''Veiculo'' \<Longrightarrow> createEntity vs e = Inr vs' \<Longrightarrow>
     veiculos_ok vs'"
  using createEntity_distinct[of vs e vs'] by (auto simp: veiculos_ok_def)

lemma veiculos_ok_aplica: "veiculos_ok vs \<Longrightarrow> veiculos_ok (map (aplica m e) vs)"
  by (auto simp: veiculos_ok_def simp del: map_map)

lemma locacoes_ok_create:
  "locacoes_ok ls \<Longrightarrow> locacao_ok e \<Longrightarrow> createEntity ls e = Inr ls' \<Longrightarrow> locacoes_ok ls'"
  using createEntity_distinct[of ls e ls'] by (auto simp: locacoes_ok_def locacao_ok_def)

lemma locacao_ok_cancelada:
  "locacao_ok x \<Longrightarrow> props e = [''status'' \<mapsto> Str ''cancelada''] \<Longrightarrow>
     locacao_ok (aplica Merge e x)"
  by (auto simp: locacao_ok_def props_aplica_Merge)

lemma locacoes_ok_cancelada:
  "locacoes_ok ls \<Longrightarrow> props e = [''status'' \<mapsto> Str ''cancelada''] \<Longrightarrow>
     locacoes_ok (map (aplica Merge e) ls)"
  by (auto simp: locacoes_ok_def locacao_ok_cancelada simp del: map_map)

lemma integro_servidor: "integro d \<Longrightarrow> integro (snd (servidor env p d))"
proof -
  assume i: "integro d"
  have v: "veiculos_ok (tabelaVeiculos (snd (servidor env p d)))"
    using servidor_veiculos[of env p d] i
    by (auto simp: integro_def veiculos_ok_aplica dest: veiculos_ok_create)
  have l: "locacoes_ok (tabelaLocacoes (snd (servidor env p d)))"
    using servidor_locacoes[of env p d] i
    by (auto simp: integro_def locacoes_ok_cancelada locacao_ok_def
        dest!: locacoes_ok_create[rotated 2])
  from v l show ?thesis by (simp add: integro_def)
qed

lemma integro_executa: "integro d \<Longrightarrow> integro (executa ps d)"
  by (induction ps arbitrary: d) (auto simp: integro_servidor)

lemma integro_vazio: "integro vazio"
  by (simp add: integro_def vazio_def veiculos_ok_def locacoes_ok_def)

lemma integro_alcancavel: "integro (executa ps vazio)"
  by (simp add: integro_executa integro_vazio)


section \<open>A rental is never deleted and never goes back to active\<close>

lemma find_append_Some: "find P xs = Some x \<Longrightarrow> find P (xs @ ys) = Some x"
  by (induction xs) (auto split: if_splits)

lemma servidor_locacao_fica:
  assumes "getEntity (tabelaLocacoes d) pk k = Inr l"
  shows "\<exists>l'. getEntity (tabelaLocacoes (snd (servidor env p d))) pk k = Inr l'
           \<and> (props l' ''status'' = props l ''status''
                \<or> props l' ''status'' = Some (Str ''cancelada''))"
proof -
  from assms have f: "find (tem pk k) (tabelaLocacoes d) = Some l"
    by (simp add: getEntity_Inr_iff)
  from servidor_locacoes[of env p d] consider
      (mesma) "tabelaLocacoes (snd (servidor env p d)) = tabelaLocacoes d"
    | (nova) e where "createEntity (tabelaLocacoes d) e
                        = Inr (tabelaLocacoes (snd (servidor env p d)))"
    | (cancela) e where "props e = [''status'' \<mapsto> Str ''cancelada'']"
        "tabelaLocacoes (snd (servidor env p d)) = map (aplica Merge e) (tabelaLocacoes d)"
    by blast
  then show ?thesis
  proof cases
    case mesma
    with assms show ?thesis by simp
  next
    case nova
    from createEntity_Inr_D[OF nova]
    have "tabelaLocacoes (snd (servidor env p d)) = tabelaLocacoes d @ [e]" by simp
    with f show ?thesis by (simp add: getEntity_Inr_iff find_append_Some)
  next
    case cancela
    from f have "find (tem pk k) (map (aplica Merge e) (tabelaLocacoes d))
                   = Some (aplica Merge e l)"
      by (simp add: find_map_aplica)
    with cancela show ?thesis
      by (auto simp: getEntity_Inr_iff props_aplica_Merge)
  qed
qed

lemma executa_locacao_fica:
  "getEntity (tabelaLocacoes d) pk k = Inr l \<Longrightarrow>
     \<exists>l'. getEntity (tabelaLocacoes (executa qs d)) pk k = Inr l'
          \<and> (props l' ''status'' = props l ''status''
               \<or> props l' ''status'' = Some (Str ''cancelada''))"
proof (induction qs arbitrary: d l)
  case Nil
  then show ?case by simp
next
  case (Cons q qs)
  obtain env p where q: "q = (env, p)" by (cases q)
  from servidor_locacao_fica[OF Cons.prems, of env p] obtain l1 where
    l1: "getEntity (tabelaLocacoes (snd (servidor env p d))) pk k = Inr l1"
    and s1: "props l1 ''status'' = props l ''status''
                \<or> props l1 ''status'' = Some (Str ''cancelada'')" by blast
  from Cons.IH[OF l1] obtain l' where
    "getEntity (tabelaLocacoes (executa qs (snd (servidor env p d)))) pk k = Inr l'"
    "props l' ''status'' = props l1 ''status''
                \<or> props l' ''status'' = Some (Str ''cancelada'')" by blast
  with s1 show ?case by (auto simp: q)
qed

text \<open>
  C8. Take a rental found in a state that some sequence of requests reaches from the
  empty store. Its status is \<open>ativa\<close> or \<open>cancelada\<close>. After any further sequence of
  requests, whatever calls fail in them, the rental is still found under its key, and
  its status is what it was, or it was \<open>ativa\<close> and is now \<open>cancelada\<close>: there is no
  deletion and no way back from \<open>cancelada\<close>.
\<close>

theorem locacao_so_cancela:
  assumes "getEntity (tabelaLocacoes (executa ps vazio)) pk k = Inr l"
  shows "(props l ''status'' = Some (Str ''ativa'')
            \<or> props l ''status'' = Some (Str ''cancelada''))
     \<and> (\<exists>l'. getEntity (tabelaLocacoes (executa qs (executa ps vazio))) pk k = Inr l'
             \<and> (props l' ''status'' = props l ''status''
                  \<or> (props l ''status'' = Some (Str ''ativa'')
                       \<and> props l' ''status'' = Some (Str ''cancelada''))))"
proof -
  from getEntity_Inr_D[OF assms] have "l \<in> set (tabelaLocacoes (executa ps vazio))" by simp
  with integro_alcancavel[of ps] have "locacao_ok l"
    by (simp add: integro_def locacoes_ok_def)
  then have s: "props l ''status'' = Some (Str ''ativa'')
            \<or> props l ''status'' = Some (Str ''cancelada'')"
    by (simp add: locacao_ok_def)
  from executa_locacao_fica[OF assms, of qs] s show ?thesis by auto
qed


section \<open>Rental creation and cancellation write only the flag of a vehicle\<close>

lemma coluna_aplica:
  "props e = [c' \<mapsto> y] \<Longrightarrow> c \<noteq> c' \<Longrightarrow> coluna c (map (aplica Merge e) t) = coluna c t"
  by (simp add: coluna_def props_aplica_Merge)

lemma post_locacoes_moldura:
  "map partitionKey (tabelaVeiculos (snd (post_locacoes env req d)))
     = map partitionKey (tabelaVeiculos d)
   \<and> map rowKey (tabelaVeiculos (snd (post_locacoes env req d))) = map rowKey (tabelaVeiculos d)
   \<and> (\<forall>c. c \<noteq> ''disponivel'' \<longrightarrow>
         coluna c (tabelaVeiculos (snd (post_locacoes env req d))) = coluna c (tabelaVeiculos d))"
  using post_locacoes_veiculos[of env req d]
  by (auto simp: coluna_aplica simp del: map_map)

lemma post_cancelar_locacao_moldura:
  "map partitionKey (tabelaVeiculos (snd (post_cancelar_locacao env k d)))
     = map partitionKey (tabelaVeiculos d)
   \<and> map rowKey (tabelaVeiculos (snd (post_cancelar_locacao env k d)))
       = map rowKey (tabelaVeiculos d)
   \<and> (\<forall>c. c \<noteq> ''disponivel'' \<longrightarrow>
         coluna c (tabelaVeiculos (snd (post_cancelar_locacao env k d)))
           = coluna c (tabelaVeiculos d))"
  using post_cancelar_locacao_veiculos[of env k d]
  by (auto simp: coluna_aplica simp del: map_map)

text \<open>
  C9. For every store, request and surroundings, failing calls included, the vehicle
  table after a rental creation, and after a cancellation, has the same rows under
  the same keys, and every column other than \<open>disponivel\<close> reads the same row by row:
  in particular brand, model, year, daily rate and image URL.
\<close>

theorem veiculo_so_muda_disponivel:
  "mesmo_cadastro (tabelaVeiculos d) (tabelaVeiculos (snd (post_locacoes env req d)))
   \<and> mesmo_cadastro (tabelaVeiculos d) (tabelaVeiculos (snd (post_cancelar_locacao env k d)))"
  using post_locacoes_moldura[of env req d] post_cancelar_locacao_moldura[of env k d]
  by (simp add: mesmo_cadastro_def)

section \<open>Cancellation\<close>

lemma post_cancelar_locacao_achou:
  assumes "getEntity (tabelaLocacoes d) ''Locacao'' k = Inr l"
    "falha env 0 = None" "falha env 1 = None"
  shows "post_cancelar_locacao env (Some k) d =
     (Resposta 200 (Sucesso True None),
      d\<lparr>tabelaLocacoes := map (aplica Merge (cancelada l)) (tabelaLocacoes d),
        tabelaVeiculos := devolve env l (tabelaVeiculos d)\<rparr>)"
proof -
  from getEntity_Inr_D[OF assms(1)]
  have "existe (tabelaLocacoes d) (partitionKey (cancelada l)) (rowKey (cancelada l))"
    by simp
  then have "updateEntity (tabelaLocacoes d) (cancelada l) Merge
               = Inr (map (aplica Merge (cancelada l)) (tabelaLocacoes d))"
    by (rule updateEntity_existe)
  with assms show ?thesis
    by (simp add: post_cancelar_locacao_def getEntity_opt_def)
qed

lemma post_cancelar_locacao_nao_achou:
  assumes "\<not> existe (tabelaLocacoes d) ''Locacao'' k"
  shows "fst (post_cancelar_locacao env (Some k) d)
           = Resposta 500 (Erro (message (case falha env 0 of
                None \<Rightarrow> RestError (Some 404) ''ResourceNotFound'' | Some err \<Rightarrow> err)))
         \<and> snd (post_cancelar_locacao env (Some k) d) = d"
  using assms
  by (cases "falha env 0")
     (simp_all add: post_cancelar_locacao_def getEntity_opt_def getEntity_nao_existe)

lemma devolve_achou:
  assumes "props l ''placaVeiculo'' = Some (Str p)" "p \<noteq> []"
    "getEntity vs ''Veiculo'' p = Inr v" "falha env 2 = None" "falha env 3 = None"
  shows "devolve env l vs = map (aplica Merge (disponivel v)) vs"
proof -
  from getEntity_Inr_D[OF assms(3)]
  have "existe vs (partitionKey (disponivel v)) (rowKey (disponivel v))" by simp
  then have "updateEntity vs (disponivel v) Merge = Inr (map (aplica Merge (disponivel v)) vs)"
    by (rule updateEntity_existe)
  with assms show ?thesis by (simp add: devolve_def)
qed

lemma devolve_nao_existe:
  "props l ''placaVeiculo'' = Some (Str p) \<Longrightarrow> \<not> existe vs ''Veiculo'' p \<Longrightarrow>
     devolve env l vs = vs"
  by (cases "falha env 2") (simp_all add: devolve_def getEntity_nao_existe)

lemma aplica_disponivel_marcado:
  "getEntity vs ''Veiculo'' p = Inr v \<Longrightarrow>
     map (aplica Merge (disponivel v)) vs = map (marcado_disponivel p) vs"
  by (drule getEntity_Inr_D) (simp add: aplica_def marcado_disponivel_def)

lemma marcado_nao_existe:
  "\<not> existe vs ''Veiculo'' p \<Longrightarrow> map (marcado_disponivel p) vs = vs"
  by (induction vs) (auto simp: existe_def marcado_disponivel_def)

text \<open>
  C2. Take a state that a sequence of requests reaches from the empty store, and a
  rental found in it under the requested id; let the read and the write of the rental
  be answered. Then the cancellation answers the success, and the rental read again
  has status \<open>cancelada\<close>. The rental has a plate. If a vehicle with that plate exists
  and the two calls on the vehicle are answered, the vehicle read again has
  \<open>disponivel\<close> true; if no vehicle with that plate exists, the answer is the same
  success and the vehicle table is as before.
\<close>

theorem post_cancelar_locacao_efeito:
  assumes d: "d = executa ps vazio"
    and l: "getEntity (tabelaLocacoes d) ''Locacao'' k = Inr l"
    and f: "falha env 0 = None" "falha env 1 = None"
  shows
    "fst (post_cancelar_locacao env (Some k) d) = Resposta 200 (Sucesso True None)
     \<and> (\<exists>l'. getEntity (tabelaLocacoes (snd (post_cancelar_locacao env (Some k) d)))
               ''Locacao'' k = Inr l'
             \<and> props l' ''status'' = Some (Str ''cancelada''))
     \<and> (\<exists>p. props l ''placaVeiculo'' = Some (Str p)
            \<and> (existe (tabelaVeiculos d) ''Veiculo'' p
                 \<and> falha env 2 = None \<and> falha env 3 = None \<longrightarrow>
                (\<exists>v'. getEntity (tabelaVeiculos (snd (post_cancelar_locacao env (Some k) d)))
                        ''Veiculo'' p = Inr v'
                      \<and> props v' ''disponivel'' = Some (Bool True)))
            \<and> (\<not> existe (tabelaVeiculos d) ''Veiculo'' p \<longrightarrow>
                tabelaVeiculos (snd (post_cancelar_locacao env (Some k) d))
                  = tabelaVeiculos d))"
proof -
  note r = post_cancelar_locacao_achou[OF l f]
  from getEntity_Inr_D[OF l] have m: "l \<in> set (tabelaLocacoes d)"
    and kl: "partitionKey l = ''Locacao''" "rowKey l = k" by simp_all
  from integro_alcancavel[of ps] d m have "locacao_ok l"
    by (simp add: integro_def locacoes_ok_def)
  then obtain p where p: "props l ''placaVeiculo'' = Some (Str p)" "p \<noteq> []"
    by (auto simp: locacao_ok_def)
  have s: "\<exists>l'. getEntity (tabelaLocacoes (snd (post_cancelar_locacao env (Some k) d)))
               ''Locacao'' k = Inr l'
             \<and> props l' ''status'' = Some (Str ''cancelada'')"
    using getEntity_map_aplica[OF l, of Merge "cancelada l"] kl
    by (simp add: r props_aplica_Merge tem_def)
  have a: "\<exists>v'. getEntity (tabelaVeiculos (snd (post_cancelar_locacao env (Some k) d)))
                        ''Veiculo'' p = Inr v'
                      \<and> props v' ''disponivel'' = Some (Bool True)"
    if "existe (tabelaVeiculos d) ''Veiculo'' p \<and> falha env 2 = None \<and> falha env 3 = None"
  proof -
    from that obtain v where v: "getEntity (tabelaVeiculos d) ''Veiculo'' p = Inr v"
      using getEntity_existe by blast
    from devolve_achou[OF p v] that
    have "devolve env l (tabelaVeiculos d) = map (aplica Merge (disponivel v)) (tabelaVeiculos d)"
      by simp
    with getEntity_map_aplica[OF v, of Merge "disponivel v"] getEntity_Inr_D[OF v]
    show ?thesis by (simp add: r props_aplica_Merge tem_def)
  qed
  have b: "tabelaVeiculos (snd (post_cancelar_locacao env (Some k) d)) = tabelaVeiculos d"
    if "\<not> existe (tabelaVeiculos d) ''Veiculo'' p"
    using devolve_nao_existe[OF p(1) that] by (simp add: r)
  from s a b p(1) show ?thesis by (auto simp: r)
qed


text \<open>
  In the shop rental 6 is cancelled at time 7: the answer is the success, the rental is
  cancelled and the Civic is available again.
\<close>

theorem post_cancelar_locacao_efeito_witness:
  "fst (post_cancelar_locacao (amb 7) (Some ''6'') loja) = Resposta 200 (Sucesso True None)
   \<and> (\<exists>l'. getEntity (tabelaLocacoes (snd (post_cancelar_locacao (amb 7) (Some ''6'') loja)))
             ''Locacao'' ''6'' = Inr l'
           \<and> props l' ''status'' = Some (Str ''cancelada''))
   \<and> (\<exists>v'. getEntity (tabelaVeiculos (snd (post_cancelar_locacao (amb 7) (Some ''6'') loja)))
             ''Veiculo'' ''GHI789'' = Inr v'
           \<and> props v' ''disponivel'' = Some (Bool True))"
proof -
  let ?l = "hd (tabelaLocacoes loja)"
  have h: "loja = executa historia vazio"
      "getEntity (tabelaLocacoes loja) ''Locacao'' ''6'' = Inr ?l"
      "falha (amb 7) 0 = None" "falha (amb 7) 1 = None"
    by (simp_all add: loja_def[symmetric] loja_eq getEntity_def tem_def amb_def)
  note t = post_cancelar_locacao_efeito[OF h]
  have p: "props ?l ''placaVeiculo'' = Some (Str ''GHI789'')"
      "existe (tabelaVeiculos loja) ''Veiculo'' ''GHI789''"
      "falha (amb 7) 2 = None" "falha (amb 7) 3 = None"
    by (simp_all add: loja_eq existe_def tem_def amb_def)
  from t p show ?thesis by auto
qed

text \<open>
  In the shop rental 6 is an active rental. Then it is cancelled, a request arrives
  with the clock reading 6 again, and client 4 is deleted: rental 6 is still there,
  and cancelled.
\<close>

theorem locacao_so_cancela_witness:
  "getEntity (tabelaLocacoes (executa historia vazio)) ''Locacao'' ''6''
     = Inr (hd (tabelaLocacoes loja))
   \<and> props (hd (tabelaLocacoes loja)) ''status'' = Some (Str ''ativa'')
   \<and> (\<exists>l'. getEntity (tabelaLocacoes (executa depois (executa historia vazio)))
              ''Locacao'' ''6'' = Inr l'
           \<and> props l' ''status'' = Some (Str ''cancelada''))"
proof -
  let ?l = "hd (tabelaLocacoes loja)"
  have h: "getEntity (tabelaLocacoes (executa historia vazio)) ''Locacao'' ''6'' = Inr ?l"
    by (simp add: loja_def[symmetric] loja_eq getEntity_def tem_def)
  have a: "props ?l ''status'' = Some (Str ''ativa'')"
    by (simp add: loja_eq)
  have c: "coluna ''status'' (tabelaLocacoes (executa depois loja)) = [Some (Str ''cancelada'')]"
      "map rowKey (tabelaLocacoes (executa depois loja)) = [''6'']"
      "map partitionKey (tabelaLocacoes (executa depois loja)) = [''Locacao'']"
    by (simp_all add: loja_eq depois_def amb_def aluga_def coluna_def calcula)
  from locacao_so_cancela[OF h, of depois] obtain l' where
    l': "getEntity (tabelaLocacoes (executa depois (executa historia vazio)))
              ''Locacao'' ''6'' = Inr l'" by blast
  from getEntity_Inr_D[OF l'] c have "props l' ''status'' = Some (Str ''cancelada'')"
    by (cases "tabelaLocacoes (executa depois loja)")
       (auto simp: loja_def[symmetric] coluna_def)
  with h a l' show ?thesis by blast
qed

text \<open>
  In the shop the Corolla is rented at time 7, and rental 6 is cancelled at time 7:
  either way brands and models of the three vehicles read as before.
\<close>

theorem veiculo_so_muda_disponivel_witness:
  "coluna ''marca'' (tabelaVeiculos (snd (post_locacoes (amb 7) (aluga ''ABC123'' ''5'') loja)))
     = [Some (Str ''Toyota''), Some (Str ''Toyota''), Some (Str ''Honda'')]
   \<and> coluna ''modelo''
        (tabelaVeiculos (snd (post_cancelar_locacao (amb 7) (Some ''6'') loja)))
       = [Some (Str ''Corolla''), Some (Str ''Yaris''), Some (Str ''Civic'')]"
proof -
  have c: "coluna ''marca'' (tabelaVeiculos loja)
             = [Some (Str ''Toyota''), Some (Str ''Toyota''), Some (Str ''Honda'')]"
      "coluna ''modelo'' (tabelaVeiculos loja)
             = [Some (Str ''Corolla''), Some (Str ''Yaris''), Some (Str ''Civic'')]"
    by (simp_all add: loja_eq coluna_def)
  from veiculo_so_muda_disponivel[of loja "amb 7" "aluga ''ABC123'' ''5''" "Some ''6''"] c
  show ?thesis by (simp add: mesmo_cadastro_def)
qed

section \<open>Cancelling again\<close>

lemma devolve_marcado:
  assumes "props l ''placaVeiculo'' = Some (Str p)" "p \<noteq> []"
    "falha env 2 = None" "falha env 3 = None"
  shows "devolve env l vs = map (marcado_disponivel p) vs"
proof (cases "existe vs ''Veiculo'' p")
  case True
  then obtain v where v: "getEntity vs ''Veiculo'' p = Inr v"
    using getEntity_existe by blast
  from devolve_achou[OF assms(1,2) v assms(3,4)] aplica_disponivel_marcado[OF v]
  show ?thesis by simp
next
  case False
  with devolve_nao_existe[OF assms(1) False] marcado_nao_existe[OF False]
  show ?thesis by simp
qed

lemma marcado_disponivel_idem:
  "marcado_disponivel p (marcado_disponivel p v) = marcado_disponivel p v"
  by (simp add: marcado_disponivel_def tem_def)

lemma map_add_idem: "(m ++ n) ++ n = m ++ n"
  by (auto simp: map_add_def fun_eq_iff split: option.splits)

lemma aplica_Merge_idem: "aplica Merge e (aplica Merge e x) = aplica Merge e x"
  by (simp add: aplica_def tem_def map_add_idem)

lemma executa_append: "executa (ps @ qs) d = executa qs (executa ps d)"
  by (induction ps arbitrary: d) auto

lemma aplica_cancelada_fixo:
  assumes "locacoes_ok ls" "l \<in> set ls" "props l ''status'' = Some (Str ''cancelada'')"
  shows "map (aplica Merge (cancelada l)) ls = ls"
proof -
  have "aplica Merge (cancelada l) x = x" if x: "x \<in> set ls" for x
  proof (cases "tem (partitionKey l) (rowKey l) x")
    case False
    then show ?thesis by (simp add: aplica_def)
  next
    case True
    from assms(1) have "inj_on rowKey (set ls)"
      by (simp add: locacoes_ok_def distinct_map)
    with True x assms(2) have "x = l" by (auto simp: tem_def inj_on_def)
    moreover have "props l ++ [''status'' \<mapsto> Str ''cancelada''] = props l"
      using assms(3) by (auto simp: map_add_def fun_eq_iff)
    ultimately show ?thesis by (simp add: aplica_def)
  qed
  then show ?thesis by (simp add: map_idI)
qed

text \<open>
  C6. Take a state that a sequence of requests reaches from the empty store, a rental
  found in it under the requested id, and a cancellation whose four calls are
  answered. If the rental is already cancelled, the cancellation is not refused: it
  answers the success, the rental table and the client table are as before, and the
  vehicle table is as before except that the vehicle of the rental's plate, if there
  is one, is marked available. And whatever the status of the rental was, cancelling
  once more after the cancellation gives the same answer and the same store as the
  cancellation gave.
\<close>

theorem post_cancelar_locacao_idempotente:
  assumes d: "d = executa ps vazio"
    and l: "getEntity (tabelaLocacoes d) ''Locacao'' k = Inr l"
    and f: "falha env 0 = None" "falha env 1 = None" "falha env 2 = None" "falha env 3 = None"
  shows
    "(props l ''status'' = Some (Str ''cancelada'') \<longrightarrow>
        fst (post_cancelar_locacao env (Some k) d) = Resposta 200 (Sucesso True None)
        \<and> tabelaLocacoes (snd (post_cancelar_locacao env (Some k) d)) = tabelaLocacoes d
        \<and> tabelaClientes (snd (post_cancelar_locacao env (Some k) d)) = tabelaClientes d
        \<and> (\<exists>p. props l ''placaVeiculo'' = Some (Str p)
               \<and> tabelaVeiculos (snd (post_cancelar_locacao env (Some k) d))
                   = map (marcado_disponivel p) (tabelaVeiculos d)))
     \<and> post_cancelar_locacao env (Some k) (snd (post_cancelar_locacao env (Some k) d))
         = post_cancelar_locacao env (Some k) d"
proof -
  let ?c = "cancelada l"
  note r = post_cancelar_locacao_achou[OF l f(1,2)]
  from getEntity_Inr_D[OF l] have m: "l \<in> set (tabelaLocacoes d)" by simp
  from integro_alcancavel[of ps] d have ok: "locacoes_ok (tabelaLocacoes d)"
    by (simp add: integro_def)
  with m have "locacao_ok l" by (simp add: locacoes_ok_def)
  then obtain p where p: "props l ''placaVeiculo'' = Some (Str p)" "p \<noteq> []"
    by (auto simp: locacao_ok_def)
  have dv: "devolve env l vs = map (marcado_disponivel p) vs" for vs
    by (rule devolve_marcado[OF p f(3,4)])
  have one: "props l ''status'' = Some (Str ''cancelada'') \<longrightarrow>
        fst (post_cancelar_locacao env (Some k) d) = Resposta 200 (Sucesso True None)
        \<and> tabelaLocacoes (snd (post_cancelar_locacao env (Some k) d)) = tabelaLocacoes d
        \<and> tabelaClientes (snd (post_cancelar_locacao env (Some k) d)) = tabelaClientes d
        \<and> (\<exists>p. props l ''placaVeiculo'' = Some (Str p)
               \<and> tabelaVeiculos (snd (post_cancelar_locacao env (Some k) d))
                   = map (marcado_disponivel p) (tabelaVeiculos d))"
    using aplica_cancelada_fixo[OF ok m] p(1) by (simp add: r dv)
  let ?d1 = "snd (post_cancelar_locacao env (Some k) d)"
  let ?l1 = "aplica Merge ?c l"
  have l1: "getEntity (tabelaLocacoes ?d1) ''Locacao'' k = Inr ?l1"
    using getEntity_map_aplica[OF l, of Merge ?c] by (simp add: r)
  have c1: "cancelada ?l1 = ?c" by (simp add: cancelada_def)
  have p1: "props ?l1 ''placaVeiculo'' = Some (Str p)"
    using p(1) by (simp add: props_aplica_Merge)
  have dv1: "devolve env ?l1 vs = map (marcado_disponivel p) vs" for vs
    by (rule devolve_marcado[OF p1 p(2) f(3,4)])
  have two: "post_cancelar_locacao env (Some k) ?d1 = post_cancelar_locacao env (Some k) d"
    unfolding post_cancelar_locacao_achou[OF l1 f(1,2)] c1 dv1
    by (simp add: r dv aplica_Merge_idem marcado_disponivel_idem)
  from one two show ?thesis by blast
qed

lemma devolvida_eq:
  "devolvida =
     \<lparr>tabelaVeiculos =
        [\<lparr>partitionKey = ''Veiculo'', rowKey = ''ABC123'',
          props = [''marca'' \<mapsto> Str ''Toyota'', ''modelo'' \<mapsto> Str ''Corolla'',
                   ''ano'' \<mapsto> Num (Fin 2020), ''urlImagem'' \<mapsto> Str [],
                   ''precoDiaria'' \<mapsto> Num (Fin 150), ''disponivel'' \<mapsto> Bool True]\<rparr>,
         \<lparr>partitionKey = ''Veiculo'', rowKey = ''DEF456'',
          props = [''marca'' \<mapsto> Str ''Toyota'', ''modelo'' \<mapsto> Str ''Yaris'',
                   ''ano'' \<mapsto> Num (Fin 2020), ''urlImagem'' \<mapsto> Str [],
                   ''precoDiaria'' \<mapsto> Num (Fin 150), ''disponivel'' \<mapsto> Bool True]\<rparr>,
         \<lparr>partitionKey = ''Veiculo'', rowKey = ''GHI789'',
          props = [''marca'' \<mapsto> Str ''Honda'', ''modelo'' \<mapsto> Str ''Civic'',
                   ''ano'' \<mapsto> Num (Fin 2020), ''urlImagem'' \<mapsto> Str [],
                   ''precoDiaria'' \<mapsto> Num (Fin 150), ''disponivel'' \<mapsto> Bool True]\<rparr>],
      tabelaClientes =
        [\<lparr>partitionKey = ''Cliente'', rowKey = ''4'', props = [''nome'' \<mapsto> Str ''Ana'']\<rparr>,
         \<lparr>partitionKey = ''Cliente'', rowKey = ''5'', props = [''nome'' \<mapsto> Str ''Rui'']\<rparr>],
      tabelaLocacoes =
        [\<lparr>partitionKey = ''Locacao'', rowKey = ''6'',
          props = [''placaVeiculo'' \<mapsto> Str ''GHI789'', ''marca'' \<mapsto> Str ''Honda'',
                   ''modelo'' \<mapsto> Str ''Civic'', ''clienteId'' \<mapsto> Str ''4'',
                   ''dataInicio'' \<mapsto> Str ''2024-01-01'', ''dataFim'' \<mapsto> Str ''2024-01-05'',
                   ''valor'' \<mapsto> Num (Fin 600), ''status'' \<mapsto> Str ''cancelada'']\<rparr>]\<rparr>"
proof -
  have "devolvida = snd (post_cancelar_locacao (amb 7) (Some ''6'') loja)"
    by (simp add: devolvida_def loja_def executa_append)
  then show ?thesis
    by (simp add: loja_eq amb_def calcula)
qed

text \<open>
  After rental 6 of the shop is cancelled, cancelling it again succeeds, leaves the
  rental cancelled and the three vehicles available, and doing it a third time
  changes nothing more.
\<close>

theorem post_cancelar_locacao_idempotente_witness:
  "coluna ''status'' (tabelaLocacoes devolvida) = [Some (Str ''cancelada'')]
   \<and> fst (post_cancelar_locacao (amb 8) (Some ''6'') devolvida)
       = Resposta 200 (Sucesso True None)
   \<and> tabelaLocacoes (snd (post_cancelar_locacao (amb 8) (Some ''6'') devolvida))
       = tabelaLocacoes devolvida
   \<and> coluna ''disponivel''
        (tabelaVeiculos (snd (post_cancelar_locacao (amb 8) (Some ''6'') devolvida)))
       = [Some (Bool True), Some (Bool True), Some (Bool True)]
   \<and> post_cancelar_locacao (amb 8) (Some ''6'')
        (snd (post_cancelar_locacao (amb 8) (Some ''6'') devolvida))
       = post_cancelar_locacao (amb 8) (Some ''6'') devolvida"
proof -
  let ?l = "hd (tabelaLocacoes devolvida)"
  have r: "devolvida = executa (historia @ [(amb 7, PostCancelarLocacao (Some ''6''))]) vazio"
    by (simp add: devolvida_def)
  have h: "getEntity (tabelaLocacoes devolvida) ''Locacao'' ''6'' = Inr ?l"
      "falha (amb 8) 0 = None" "falha (amb 8) 1 = None"
      "falha (amb 8) 2 = None" "falha (amb 8) 3 = None"
    by (simp_all add: devolvida_eq getEntity_def tem_def amb_def)
  note t = post_cancelar_locacao_idempotente[OF r h]
  have s: "props ?l ''status'' = Some (Str ''cancelada'')"
      "props ?l ''placaVeiculo'' = Some (Str ''GHI789'')"
      "coluna ''status'' (tabelaLocacoes devolvida) = [Some (Str ''cancelada'')]"
    by (simp_all add: devolvida_eq coluna_def)
  have w: "coluna ''disponivel'' (map (marcado_disponivel ''GHI789'') (tabelaVeiculos devolvida))
     = [Some (Bool True), Some (Bool True), Some (Bool True)]"
    by (simp add: devolvida_eq coluna_def marcado_disponivel_def tem_def)
  from t s w show ?thesis by auto
qed

section \<open>The availability invariant\<close>

lemma coerente_registro:
  assumes c: "coerente vs ls" and e: "partitionKey e = ''Veiculo''"
    "props e ''disponivel'' = Some (Bool True)" "\<not> existe vs ''Veiculo'' (rowKey e)"
  shows "coerente (vs @ [e]) ls"
proof -
  from c e have v: "veiculos_ok (vs @ [e])"
    by (auto simp: coerente_def veiculos_ok_def existe_def tem_def)
  have n: "\<not> ocupada ls (rowKey e)"
  proof
    assume "ocupada ls (rowKey e)"
    then obtain l where l: "l \<in> set ls" "props l ''placaVeiculo'' = Some (Str (rowKey e))"
      by (auto simp: ocupada_def ativa_da_placa_def)
    with c have "existe vs ''Veiculo'' (rowKey e)" by (fastforce simp: coerente_def)
    with e(3) show False by simp
  qed
  from c have r: "\<forall>l\<in>set ls. \<exists>p. props l ''placaVeiculo'' = Some (Str p)
                     \<and> existe (vs @ [e]) ''Veiculo'' p"
    by (fastforce simp: coerente_def existe_def)
  from c v n r e(2) show ?thesis by (auto simp: coerente_def)
qed

lemma coerente_locacao:
  assumes c: "coerente vs ls" and v: "getEntity vs ''Veiculo'' p = Inr v"
    and d: "props v ''disponivel'' = Some (Bool True)"
    and e: "locacao_ok e" "ativa_da_placa p e" "\<not> existe ls ''Locacao'' (rowKey e)"
  shows "coerente (map (aplica Merge (indisponivel v)) vs) (ls @ [e])"
proof -
  let ?f = "aplica Merge (indisponivel v)"
  from getEntity_Inr_D[OF v] have vin: "v \<in> set vs" and kv: "partitionKey v = ''Veiculo''"
    "rowKey v = p" and ex: "existe vs ''Veiculo'' p" by simp_all
  from c have vok: "veiculos_ok vs" and lok: "locacoes_ok ls" by (simp_all add: coerente_def)
  from c vin d kv have livre: "\<not> ocupada ls p" by (auto simp: coerente_def)
  have 1: "veiculos_ok (map ?f vs)" using vok by (rule veiculos_ok_aplica)
  have "createEntity ls e = Inr (ls @ [e])"
    using e(1,3) by (simp add: createEntity_novo locacao_ok_def)
  with lok e(1) have 2: "locacoes_ok (ls @ [e])" by (rule locacoes_ok_create)
  have 3: "\<forall>l\<in>set (ls @ [e]). \<exists>q. props l ''placaVeiculo'' = Some (Str q)
              \<and> existe (map ?f vs) ''Veiculo'' q"
    using c e(2) ex by (auto simp: coerente_def ativa_da_placa_def)
  have 4: "\<forall>l1\<in>set (ls @ [e]). \<forall>l2\<in>set (ls @ [e]). \<forall>q.
            ativa_da_placa q l1 \<and> ativa_da_placa q l2 \<longrightarrow> l1 = l2"
  proof (intro ballI allI impI)
    fix l1 l2 q
    assume m: "l1 \<in> set (ls @ [e])" "l2 \<in> set (ls @ [e])"
      and a: "ativa_da_placa q l1 \<and> ativa_da_placa q l2"
    have x: False if "l \<in> set ls" "ativa_da_placa q l" "ativa_da_placa q e" for l
    proof -
      from that(3) e(2) have "q = p" by (simp add: ativa_da_placa_def)
      with that(1,2) livre show False by (auto simp: ocupada_def)
    qed
    from c have j: "l1 = l2"
      if "l1 \<in> set ls" "l2 \<in> set ls" "ativa_da_placa q l1" "ativa_da_placa q l2"
      using that unfolding coerente_def by blast
    from m a x j show "l1 = l2" by auto
  qed
  have 5: "\<forall>x\<in>set (map ?f vs).
             props x ''disponivel'' = Some (Bool (\<not> ocupada (ls @ [e]) (rowKey x)))"
  proof
    fix x' assume "x' \<in> set (map ?f vs)"
    then obtain x where x: "x \<in> set vs" "x' = ?f x" by auto
    from vok x(1) have px: "partitionKey x = ''Veiculo''" by (simp add: veiculos_ok_def)
    from c x(1) have ix: "props x ''disponivel'' = Some (Bool (\<not> ocupada ls (rowKey x)))"
      by (simp add: coerente_def)
    show "props x' ''disponivel'' = Some (Bool (\<not> ocupada (ls @ [e]) (rowKey x')))"
    proof (cases "rowKey x = p")
      case True
      with px kv e(2) show ?thesis
        by (auto simp: x(2) props_aplica_Merge tem_def ocupada_def)
    next
      case False
      with e(2) have "\<not> ativa_da_placa (rowKey x) e" by (auto simp: ativa_da_placa_def)
      with False kv ix show ?thesis
        by (auto simp: x(2) props_aplica_Merge tem_def ocupada_def)
    qed
  qed
  from 1 2 3 4 5 show ?thesis unfolding coerente_def by blast
qed

lemma aplica_cancelada_so:
  assumes "locacoes_ok ls" "l \<in> set ls" "x \<in> set ls"
  shows "aplica Merge (cancelada l) x = (if x = l then aplica Merge (cancelada l) l else x)"
proof -
  from assms(1) have "inj_on rowKey (set ls)" by (simp add: locacoes_ok_def distinct_map)
  with assms(2,3) have "rowKey x = rowKey l \<longleftrightarrow> x = l" by (auto simp: inj_on_def)
  then show ?thesis by (auto simp: aplica_def tem_def)
qed

lemma coerente_cancelamento:
  assumes c: "coerente vs ls" and l: "getEntity ls ''Locacao'' k = Inr l"
    and a: "props l ''status'' = Some (Str ''ativa'')"
    and p: "props l ''placaVeiculo'' = Some (Str p)"
  shows "coerente (map (marcado_disponivel p) vs) (map (aplica Merge (cancelada l)) ls)"
proof -
  let ?g = "aplica Merge (cancelada l)"
  let ?m = "marcado_disponivel p"
  from getEntity_Inr_D[OF l] have lin: "l \<in> set ls" by simp
  from c have vok: "veiculos_ok vs" and lok: "locacoes_ok ls" by (simp_all add: coerente_def)
  have lp: "ativa_da_placa p l" using a p by (simp add: ativa_da_placa_def)
  have g: "?g x = (if x = l then ?g l else x)" if "x \<in> set ls" for x
    using aplica_cancelada_so[OF lok lin that] .
  have gl: "\<not> ativa_da_placa q (?g l)" for q
    by (simp add: ativa_da_placa_def props_aplica_Merge tem_def)
  have act: "ativa_da_placa q (?g x) \<longleftrightarrow> ativa_da_placa q x \<and> x \<noteq> l" if "x \<in> set ls" for x q
    using g[OF that] gl by auto
  have oc: "ocupada (map ?g ls) q \<longleftrightarrow> (\<exists>x\<in>set ls. ativa_da_placa q x \<and> x \<noteq> l)" for q
    using act by (auto simp: ocupada_def)
  have mk: "partitionKey (?m x) = partitionKey x" "rowKey (?m x) = rowKey x" for x
    by (simp_all add: marcado_disponivel_def)
  have 1: "veiculos_ok (map ?m vs)"
    using vok by (auto simp: veiculos_ok_def mk comp_def)
  have 2: "locacoes_ok (map ?g ls)"
    using lok by (rule locacoes_ok_cancelada) simp
  have ex: "existe (map ?m vs) pk q \<longleftrightarrow> existe vs pk q" for pk q
    by (auto simp: existe_def tem_def mk)
  have 3: "\<forall>x\<in>set (map ?g ls). \<exists>q. props x ''placaVeiculo'' = Some (Str q)
              \<and> existe (map ?m vs) ''Veiculo'' q"
    using c by (auto simp: coerente_def ex props_aplica_Merge)
  have 4: "\<forall>l1\<in>set (map ?g ls). \<forall>l2\<in>set (map ?g ls). \<forall>q.
            ativa_da_placa q l1 \<and> ativa_da_placa q l2 \<longrightarrow> l1 = l2"
  proof (intro ballI allI impI)
    fix l1 l2 q
    assume m: "l1 \<in> set (map ?g ls)" "l2 \<in> set (map ?g ls)"
      and aa: "ativa_da_placa q l1 \<and> ativa_da_placa q l2"
    from m obtain x1 x2 where x: "x1 \<in> set ls" "l1 = ?g x1" "x2 \<in> set ls" "l2 = ?g x2"
      by auto
    from aa x act have n: "ativa_da_placa q x1" "x1 \<noteq> l" "ativa_da_placa q x2" "x2 \<noteq> l"
      by auto
    with c x(1,3) have "x1 = x2" unfolding coerente_def by blast
    with x show "l1 = l2" by simp
  qed
  have 5: "\<forall>x\<in>set (map ?m vs).
             props x ''disponivel'' = Some (Bool (\<not> ocupada (map ?g ls) (rowKey x)))"
  proof
    fix x' assume "x' \<in> set (map ?m vs)"
    then obtain x where x: "x \<in> set vs" "x' = ?m x" by auto
    from vok x(1) have px: "partitionKey x = ''Veiculo''" by (simp add: veiculos_ok_def)
    from c x(1) have ix: "props x ''disponivel'' = Some (Bool (\<not> ocupada ls (rowKey x)))"
      by (simp add: coerente_def)
    show "props x' ''disponivel'' = Some (Bool (\<not> ocupada (map ?g ls) (rowKey x')))"
    proof (cases "rowKey x = p")
      case True
      have "\<not> ocupada (map ?g ls) p"
      proof
        assume "ocupada (map ?g ls) p"
        then obtain y where y: "y \<in> set ls" "ativa_da_placa p y" "y \<noteq> l"
          by (auto simp: oc)
        with c lin lp show False unfolding coerente_def by blast
      qed
      with True px show ?thesis
        by (simp add: x(2) marcado_disponivel_def tem_def)
    next
      case False
      from False p have "\<not> ativa_da_placa (rowKey x) l"
        by (auto simp: ativa_da_placa_def)
      then have "(\<exists>y\<in>set ls. ativa_da_placa (rowKey x) y \<and> y \<noteq> l)
                   \<longleftrightarrow> (\<exists>y\<in>set ls. ativa_da_placa (rowKey x) y)"
        by blast
      with oc[of "rowKey x"]
      have "ocupada (map ?g ls) (rowKey x) \<longleftrightarrow> ocupada ls (rowKey x)"
        by (simp add: ocupada_def[of ls])
      with False ix show ?thesis
        by (simp add: x(2) marcado_disponivel_def tem_def)
    qed
  qed
  from 1 2 3 4 5 show ?thesis unfolding coerente_def by blast
qed

text \<open>What a rule-keeping request does to the two tables.\<close>

lemma post_veiculos_regrado:
  assumes "v_disponivel req = Some ''true''"
  shows "snd (post_veiculos env req d) = d
     \<or> (\<exists>e. partitionKey e = ''Veiculo'' \<and> props e ''disponivel'' = Some (Bool True)
            \<and> \<not> existe (tabelaVeiculos d) ''Veiculo'' (rowKey e)
            \<and> snd (post_veiculos env req d) = d\<lparr>tabelaVeiculos := tabelaVeiculos d @ [e]\<rparr>)"
proof (cases "v_placa req")
  case None
  then show ?thesis
    by (cases "falha env 0")
       (auto simp: post_veiculos_def createEntity_opt_def split: sum.splits option.splits)
next
  case (Some k)
  let ?e = "\<lparr>partitionKey = ''Veiculo'', rowKey = k,
            props = Map.empty
              (''marca'' := js (v_marca req),
               ''modelo'' := js (v_modelo req),
               ''ano'' := Some (parseInt env (v_ano req)),
               ''urlImagem'' := Some (Str (case (case v_imagem req of None \<Rightarrow> Inr [] | Some r \<Rightarrow> r)
                                        of Inr u \<Rightarrow> u | Inl err \<Rightarrow> [])),
               ''precoDiaria'' := Some (parseFloat env (v_precoDiaria req)),
               ''disponivel'' := Some (Bool True))\<rparr>"
  show ?thesis
  proof (cases "snd (post_veiculos env req d) = d")
    case True
    then show ?thesis by simp
  next
    case False
    with Some assms have "createEntity (tabelaVeiculos d) ?e
                 = Inr (tabelaVeiculos (snd (post_veiculos env req d)))
             \<and> snd (post_veiculos env req d)
                 = d\<lparr>tabelaVeiculos := tabelaVeiculos (snd (post_veiculos env req d))\<rparr>"
      by (auto simp: post_veiculos_def createEntity_opt_def chamada_Inr
          split: sum.splits option.splits)
    with createEntity_Inr_D[of "tabelaVeiculos d" ?e] show ?thesis
      by (intro disjI2 exI[of _ ?e]) auto
  qed
qed

lemma post_locacoes_regrado:
  assumes f: "falha env = (\<lambda>i. None)" and g: "permitido d (PostLocacoes req)"
  shows "snd (post_locacoes env req d) = d
     \<or> (\<exists>p v. getEntity (tabelaVeiculos d) ''Veiculo'' p = Inr v
            \<and> props v ''disponivel'' = Some (Bool True)
            \<and> locacao_ok (entidade env req (Some v))
            \<and> ativa_da_placa p (entidade env req (Some v))
            \<and> \<not> existe (tabelaLocacoes d) ''Locacao'' (rowKey (entidade env req (Some v)))
            \<and> snd (post_locacoes env req d) =
                d\<lparr>tabelaLocacoes := tabelaLocacoes d @ [entidade env req (Some v)],
                  tabelaVeiculos := map (aplica Merge (indisponivel v)) (tabelaVeiculos d)\<rparr>)"
proof (cases "truthy (js (placaVeiculo req)) \<and> truthy (js (clienteId req))")
  case False
  then have "post_locacoes env req d =
      (Resposta 400 (Sucesso False (Some ''Campos obrigatorios ausentes.'')), d)"
    by (intro post_locacoes_invalido) blast
  then show ?thesis by simp
next
  case True
  then obtain p where p: "placaVeiculo req = Some p" "p \<noteq> []"
    by (auto simp: truthy_js)
  with g obtain v where v: "getEntity (tabelaVeiculos d) ''Veiculo'' p = Inr v"
    and dv: "props v ''disponivel'' = Some (Bool True)"
    by (auto split: sum.splits)
  let ?e = "entidade env req (Some v)"
  from f have f': "falha env 0 = None" "falha env 1 = None" "falha env 2 = None"
    by simp_all
  have b: "busca_veiculo env p (tabelaVeiculos d) = Some v"
    using v f' by (simp add: busca_veiculo_achou)
  have "existe (tabelaVeiculos d) (partitionKey (indisponivel v)) (rowKey (indisponivel v))"
    using getEntity_Inr_D[OF v] by simp
  then have upd: "updateEntity (tabelaVeiculos d) (indisponivel v) Merge
               = Inr (map (aplica Merge (indisponivel v)) (tabelaVeiculos d))"
    by (rule updateEntity_existe)
  show ?thesis
  proof (cases "existe (tabelaLocacoes d) ''Locacao'' (toString (now env))")
    case ex: True
    then have "createEntity (tabelaLocacoes d) ?e
                 = Inl (RestError (Some 409) ''EntityAlreadyExists'')"
      by (simp add: createEntity_repetido)
    with True p f' b show ?thesis
      by (simp add: post_locacoes_def Let_def js_def)
  next
    case nex: False
    then have "createEntity (tabelaLocacoes d) ?e = Inr (tabelaLocacoes d @ [?e])"
      by (simp add: createEntity_novo)
    with True p f' b upd have r: "snd (post_locacoes env req d) =
                d\<lparr>tabelaLocacoes := tabelaLocacoes d @ [?e],
                  tabelaVeiculos := map (aplica Merge (indisponivel v)) (tabelaVeiculos d)\<rparr>"
      by (simp add: post_locacoes_def Let_def js_def)
    have lo: "locacao_ok ?e" "ativa_da_placa p ?e"
      using p by (simp_all add: locacao_ok_def ativa_da_placa_def entidade_props js_def)
    from v dv lo nex r show ?thesis by (intro disjI2 exI[of _ p] exI[of _ v]) simp
  qed
qed

lemma post_cancelar_locacao_regrado:
  assumes f: "falha env = (\<lambda>i. None)" and g: "permitido d (PostCancelarLocacao k)"
    and c: "coerente (tabelaVeiculos d) (tabelaLocacoes d)"
  shows "snd (post_cancelar_locacao env k d) = d
     \<or> (\<exists>i l p. getEntity (tabelaLocacoes d) ''Locacao'' i = Inr l
            \<and> props l ''status'' = Some (Str ''ativa'')
            \<and> props l ''placaVeiculo'' = Some (Str p)
            \<and> snd (post_cancelar_locacao env k d) =
                d\<lparr>tabelaLocacoes := map (aplica Merge (cancelada l)) (tabelaLocacoes d),
                  tabelaVeiculos := map (marcado_disponivel p) (tabelaVeiculos d)\<rparr>)"
proof (cases k)
  case None
  then show ?thesis
    by (cases "falha env 0") (simp_all add: post_cancelar_locacao_def getEntity_opt_def)
next
  case (Some i)
  from f have f': "falha env 0 = None" "falha env 1 = None" "falha env 2 = None"
    "falha env 3 = None" by simp_all
  show ?thesis
  proof (cases "getEntity (tabelaLocacoes d) ''Locacao'' i")
    case (Inl err)
    with Some f' show ?thesis
      by (simp add: post_cancelar_locacao_def getEntity_opt_def)
  next
    case (Inr l)
    with g Some have a: "props l ''status'' = Some (Str ''ativa'')" by simp
    from getEntity_Inr_D[OF Inr] have "l \<in> set (tabelaLocacoes d)" by simp
    with c have "locacao_ok l" by (simp add: coerente_def locacoes_ok_def)
    then obtain p where p: "props l ''placaVeiculo'' = Some (Str p)" "p \<noteq> []"
      by (auto simp: locacao_ok_def)
    have "devolve env l (tabelaVeiculos d) = map (marcado_disponivel p) (tabelaVeiculos d)"
      by (rule devolve_marcado[OF p f'(3,4)])
    with post_cancelar_locacao_achou[OF Inr f'(1,2)] Some
    have "snd (post_cancelar_locacao env k d) =
                d\<lparr>tabelaLocacoes := map (aplica Merge (cancelada l)) (tabelaLocacoes d),
                  tabelaVeiculos := map (marcado_disponivel p) (tabelaVeiculos d)\<rparr>"
      by simp
    with Inr a p(1) show ?thesis by blast
  qed
qed

lemma servidor_regrado:
  assumes c: "coerente (tabelaVeiculos d) (tabelaLocacoes d)"
    and f: "falha env = (\<lambda>i. None)" and g: "permitido d p"
  shows "coerente (tabelaVeiculos (snd (servidor env p d)))
                  (tabelaLocacoes (snd (servidor env p d)))"
proof (cases p)
  case (PostVeiculos req)
  with g have "v_disponivel req = Some ''true''" by simp
  from post_veiculos_regrado[OF this, of env d] c show ?thesis
    by (auto simp: PostVeiculos coerente_registro)
next
  case (PostLocacoes req)
  from post_locacoes_regrado[OF f g[unfolded PostLocacoes]] c show ?thesis
    by (auto simp: PostLocacoes coerente_locacao)
next
  case (PostCancelarLocacao k)
  from post_cancelar_locacao_regrado[OF f g[unfolded PostCancelarLocacao] c] c show ?thesis
    by (auto simp: PostCancelarLocacao coerente_cancelamento)
qed (simp_all add: clientes_forma c)

lemma executa_regrada:
  "coerente (tabelaVeiculos d) (tabelaLocacoes d) \<Longrightarrow> regrada ps d \<Longrightarrow>
     coerente (tabelaVeiculos (executa ps d)) (tabelaLocacoes (executa ps d))"
proof (induction ps arbitrary: d)
  case Nil
  then show ?case by simp
next
  case (Cons q ps)
  obtain env p where q: "q = (env, p)" by (cases q)
  from Cons.prems q have "coerente (tabelaVeiculos (snd (servidor env p d)))
                                   (tabelaLocacoes (snd (servidor env p d)))"
    by (auto intro: servidor_regrado)
  with Cons.IH[of "snd (servidor env p d)"] Cons.prems q show ?case by simp
qed

lemma coerente_vazio: "coerente (tabelaVeiculos vazio) (tabelaLocacoes vazio)"
  by (simp add: coerente_def vazio_def veiculos_ok_def locacoes_ok_def)

text \<open>
  C5, as amended. In every state reached from the empty store by a sequence of
  requests in which every call is answered and every request keeps to the rules
  (vehicles are registered as available, a rental is asked only for a registered
  vehicle that is available, only an active rental is cancelled), each vehicle has
  \<open>disponivel\<close> false while some rental of its plate is active, and true otherwise.
\<close>

theorem disponibilidade_regrada:
  assumes "regrada ps vazio"
  shows "invariante (executa ps vazio)"
  using executa_regrada[OF coerente_vazio assms]
  by (simp add: coerente_def invariante_def)

lemma apos_historia: "executa (historia @ qs) vazio = executa qs loja"
  by (simp add: executa_append loja_def)

text \<open>
  The run that keeps to the rules: afterwards the Corolla is out on the active rental
  7, rental 6 is cancelled and the Civic is back.
\<close>

theorem disponibilidade_regrada_witness:
  "regrada em_regra vazio
   \<and> invariante (executa em_regra vazio)
   \<and> coluna ''disponivel'' (tabelaVeiculos (executa em_regra vazio))
       = [Some (Bool False), Some (Bool True), Some (Bool True)]
   \<and> coluna ''status'' (tabelaLocacoes (executa em_regra vazio))
       = [Some (Str ''cancelada''), Some (Str ''ativa'')]"
proof -
  have r: "regrada em_regra vazio"
    by (simp add: em_regra_def exemplos calcula)
  have c: "coluna ''disponivel'' (tabelaVeiculos (executa em_regra vazio))
       = [Some (Bool False), Some (Bool True), Some (Bool True)]"
    "coluna ''status'' (tabelaLocacoes (executa em_regra vazio))
       = [Some (Str ''cancelada''), Some (Str ''ativa'')]"
    unfolding em_regra_def apos_historia
    by (simp_all add: loja_eq amb_def aluga_def coluna_def calcula)
  from disponibilidade_regrada[OF r] r c show ?thesis by simp
qed

text \<open>
  The claim as it was stated, for every sequence of requests, fails. With every call
  answered, the Civic is rented while it is out and the first rental is cancelled: the
  Civic is available and rental 7 of it is active. So does each other broken rule
  break the invariant, and so does a failed write of the flag.
\<close>

theorem disponibilidade_counterexample:
  "\<not> invariante (executa reserva_dupla vazio)
   \<and> \<not> invariante (executa registro_indisponivel vazio)
   \<and> \<not> invariante (executa cancela_de_novo vazio)
   \<and> \<not> invariante (executa registro_tardio vazio)
   \<and> \<not> invariante (executa marca_falha vazio)"
proof (intro conjI)
  show "\<not> invariante (executa reserva_dupla vazio)"
    unfolding reserva_dupla_def apos_historia
    by (simp add: loja_eq invariante_def ocupada_def ativa_da_placa_def amb_def aluga_def
        calcula)
  show "\<not> invariante (executa registro_indisponivel vazio)"
    by (simp add: registro_indisponivel_def invariante_def ocupada_def ativa_da_placa_def
        exemplos calcula)
  show "\<not> invariante (executa cancela_de_novo vazio)"
    unfolding cancela_de_novo_def apos_historia
    by (simp add: loja_eq invariante_def ocupada_def ativa_da_placa_def amb_def aluga_def
        calcula)
  show "\<not> invariante (executa registro_tardio vazio)"
    by (simp add: registro_tardio_def invariante_def ocupada_def ativa_da_placa_def
        exemplos calcula)
  show "\<not> invariante (executa marca_falha vazio)"
    by (simp add: marca_falha_def invariante_def ocupada_def ativa_da_placa_def
        exemplos calcula)
qed

end
